theory Spec2Isabelle
  imports Main "HOL-Library.Word"
begin

section \<open>Python text operations used by the server\<close>

text \<open>
  Text (Python \<open>str\<close>) is modelled as \<open>string\<close>: every \<open>char\<close> is one code point in the
  range U+0000..U+00FF, so \<open>length\<close> is Python's \<open>len\<close> on such text. The operations below
  follow CPython's \<open>str\<close> methods on that range.
\<close>

text \<open>\<open>str.isspace\<close> on one character: the white space that \<open>str.strip()\<close> removes.\<close>

definition isspace :: "char \<Rightarrow> bool" where
  "isspace c = (c \<in> set [CHR 0x09, CHR 0x0A, CHR 0x0B, CHR 0x0C, CHR 0x0D,
                           CHR 0x1C, CHR 0x1D, CHR 0x1E, CHR 0x1F, CHR 0x20,
                           CHR 0x85, CHR 0xA0])"

text \<open>\<open>str.strip()\<close> with no argument.\<close>

definition strip :: "string \<Rightarrow> string" where
  "strip s = rev (dropWhile isspace (rev (dropWhile isspace s)))"

text \<open>\<open>str.rstrip('/')\<close>.\<close>

definition rstrip_slash :: "string \<Rightarrow> string" where
  "rstrip_slash s = rev (dropWhile (\<lambda>c. c = CHR ''/'') (rev s))"

text \<open>
  \<open>str.lower()\<close>: the letters A..Z and the upper-case letters of U+00C0..U+00DE
  (all but the multiplication sign U+00D7) move up by 32; every other character stays.
\<close>

definition lower_char :: "char \<Rightarrow> char" where
  "lower_char c =
     (let n = (of_char c :: nat)
      in if (65 \<le> n \<and> n \<le> 90) \<or> (192 \<le> n \<and> n \<le> 222 \<and> n \<noteq> 215)
         then char_of (n + 32) else c)"

definition lower :: "string \<Rightarrow> string" where
  "lower s = map lower_char s"

text \<open>\<open>s.startswith(p)\<close> for one prefix, and for a tuple of prefixes.\<close>

definition startswith :: "string \<Rightarrow> string \<Rightarrow> bool" where
  "startswith s p = (take (length p) s = p)"

definition startswith_any :: "string \<Rightarrow> string list \<Rightarrow> bool" where
  "startswith_any s ps = list_ex (startswith s) ps"

text \<open>\<open>sub in s\<close>: \<open>sub\<close> occurs in \<open>s\<close> as a contiguous substring.\<close>

fun contains :: "string \<Rightarrow> string \<Rightarrow> bool" where
  "contains [] sub = (sub = [])"
| "contains (c # cs) sub = (startswith (c # cs) sub \<or> contains cs sub)"

text \<open>
  \<open>str.splitlines()\<close>: the line boundaries are LF, VT, FF, CR, CR LF (one boundary),
  FS, GS, RS and NEL; a boundary at the very end opens no further line.
\<close>

definition is_linebreak :: "char \<Rightarrow> bool" where
  "is_linebreak c = (c \<in> set [CHR 0x0A, CHR 0x0B, CHR 0x0C, CHR 0x0D,
                                CHR 0x1C, CHR 0x1D, CHR 0x1E, CHR 0x85])"

fun splitlines_from :: "string \<Rightarrow> string \<Rightarrow> string list" where
  "splitlines_from cur [] = (if cur = [] then [] else [cur])"
| "splitlines_from cur [c] =
     (if is_linebreak c then [cur] else [cur @ [c]])"
| "splitlines_from cur (c # d # cs) =
     (if c = CHR 0x0D \<and> d = CHR 0x0A then cur # splitlines_from [] cs
      else if is_linebreak c then cur # splitlines_from [] (d # cs)
      else splitlines_from (cur @ [c]) (d # cs))"

definition splitlines :: "string \<Rightarrow> string list" where
  "splitlines s = splitlines_from [] s"

text \<open>\<open>sep.join(parts)\<close>.\<close>

fun join :: "string \<Rightarrow> string list \<Rightarrow> string" where
  "join sep [] = []"
| "join sep [x] = x"
| "join sep (x # y # ys) = x @ sep @ join sep (y # ys)"

text \<open>\<open>str(n)\<close> for an integer: decimal digits, with a minus sign below zero.\<close>

fun str_nat :: "nat \<Rightarrow> string" where
  "str_nat n =
     (if n < 10 then [char_of (48 + n)]
      else str_nat (n div 10) @ [char_of (48 + n mod 10)])"

definition str_int :: "int \<Rightarrow> string" where
  "str_int i = (if i < 0 then CHR ''-'' # str_nat (nat (- i)) else str_nat (nat i))"

section \<open>Diagram heuristics\<close>

text \<open>\<open>_detect_diagram_type\<close> (mcp_server.py, lines 314-335).\<close>

definition detect_diagram_type :: "string \<Rightarrow> string" where
  "detect_diagram_type code =
     (let code_lower = strip (lower code)
      in if startswith code_lower ''sequencediagram'' then ''sequence''
         else if startswith code_lower ''classdiagram'' then ''class''
         else if startswith code_lower ''statediagram'' then ''state''
         else if startswith code_lower ''gantt'' then ''gantt''
         else if startswith code_lower ''pie'' then ''pie''
         else if startswith code_lower ''journey'' then ''journey''
         else if startswith code_lower ''gitgraph'' then ''git''
         else if startswith code_lower ''graph'' \<or> startswith code_lower ''flowchart''
              then ''flowchart''
         else ''unknown'')"

text \<open>\<open>_estimate_complexity\<close> (mcp_server.py, lines 337-347).\<close>

definition estimate_complexity :: "string \<Rightarrow> string" where
  "estimate_complexity code =
     (let lines = length (splitlines code);
          chars = length code
      in if lines > 20 \<or> chars > 1000 then ''High''
         else if lines > 10 \<or> chars > 500 then ''Medium''
         else ''Low'')"

section \<open>Values, exceptions and the HTTP collaborator\<close>

text \<open>
  The values a tool argument or a JSON field can hold: \<open>None\<close>, booleans, integers and
  strings. Floats, lists and dictionaries as argument values are not modelled.
\<close>

datatype py_value = NoneV | BoolV bool | IntV int | StrV string

text \<open>\<open>str(v)\<close>, as an f-string formats a value.\<close>

fun py_str :: "py_value \<Rightarrow> string" where
  "py_str NoneV = ''None''"
| "py_str (BoolV b) = (if b then ''True'' else ''False'')"
| "py_str (IntV i) = str_int i"
| "py_str (StrV s) = s"

text \<open>\<open>type(v).__name__\<close>, which the message of an \<open>AttributeError\<close> quotes.\<close>

fun type_name :: "py_value \<Rightarrow> string" where
  "type_name NoneV = ''NoneType''"
| "type_name (BoolV b) = ''bool''"
| "type_name (IntV i) = ''int''"
| "type_name (StrV s) = ''str''"

text \<open>Truth value of a value, as \<open>not v\<close> tests it.\<close>

fun truthy :: "py_value \<Rightarrow> bool" where
  "truthy NoneV = False"
| "truthy (BoolV b) = b"
| "truthy (IntV i) = (i \<noteq> 0)"
| "truthy (StrV s) = (s \<noteq> [])"

type_synonym arguments = "string \<rightharpoonup> py_value"

text \<open>
  The exceptions a handler can raise, all subclasses of \<open>Exception\<close>:
  \<open>KeyError k\<close> from \<open>arguments[k]\<close>; \<open>AttributeError t a\<close> from a method \<open>a\<close> that a value of
  type \<open>t\<close> lacks; \<open>ValueError\<close> raised by the dispatcher; \<open>TransportError\<close> for what
  \<open>client.post\<close> raises (connection refused, timeout, DNS failure), carrying its message;
  \<open>JSONDecodeError\<close> for what \<open>response.json()\<close> raises, carrying its message.
  Cancellation of the running task is not an \<open>Exception\<close> and is not modelled.
\<close>

datatype exn =
    KeyError string
  | AttributeError string string
  | ValueError string
  | TransportError string
  | JSONDecodeError string

text \<open>\<open>str(e)\<close>. A \<open>KeyError\<close> prints the \<open>repr\<close> of its key (here always \<open>code\<close>).\<close>

fun message :: "exn \<Rightarrow> string" where
  "message (KeyError k) = [CHR 0x27] @ k @ [CHR 0x27]"
| "message (AttributeError t a) =
     [CHR 0x27] @ t @ [CHR 0x27] @ '' object has no attribute '' @ [CHR 0x27] @ a @ [CHR 0x27]"
| "message (ValueError m) = m"
| "message (TransportError m) = m"
| "message (JSONDecodeError m) = m"

text \<open>The outbound call: \<open>client.post(url, json=..., timeout=...)\<close>, timeout in seconds.\<close>

record request =
  url :: string
  json :: "(string \<times> py_value) list"
  timeout :: nat

text \<open>
  What \<open>response.json()\<close> returns: an object (its fields as a map), an array, or a scalar.
\<close>

datatype json_doc = JObject "string \<rightharpoonup> py_value" | JArray | JScalar py_value

text \<open>
  The \<open>httpx\<close> response as the handlers read it: \<open>status_code\<close>, the \<open>content-type\<close>
  header (if any), \<open>text\<close> (here \<open>body_text\<close>), the raw bytes \<open>content\<close>, and the outcome of \<open>json()\<close>.
\<close>

record response =
  status_code :: int
  content_type :: "string option"
  body_text :: string
  content :: "8 word list"
  json_result :: "exn + json_doc"

text \<open>The rendering service and the network: a reply or a raised transport failure.\<close>

type_synonym http = "request \<Rightarrow> exn + response"

datatype text_content = TextContent (content_kind: string) (content_text: string)

text \<open>A handler's outcome, with the outbound calls it made, in order.\<close>

type_synonym outcome = "(exn + text_content list) \<times> request list"

record server =
  api_base_url :: string

text \<open>\<open>MermaidMCPServer.__init__\<close>.\<close>

definition MermaidMCPServer :: "string \<Rightarrow> server" where
  "MermaidMCPServer base = \<lparr>api_base_url = rstrip_slash base\<rparr>"

text \<open>
  The symbols of the source's messages that lie outside U+0000..U+00FF, each as the bytes
  of its UTF-8 encoding: U+2705, U+274C, U+1F4CA, U+1F4A1, U+1F3A8, U+1F4D0.
\<close>

definition check_mark :: string where
  "check_mark = [CHR 0xE2, CHR 0x9C, CHR 0x85]"

definition cross_mark :: string where
  "cross_mark = [CHR 0xE2, CHR 0x9D, CHR 0x8C]"

definition bar_chart :: string where
  "bar_chart = [CHR 0xF0, CHR 0x9F, CHR 0x93, CHR 0x8A]"

definition light_bulb :: string where
  "light_bulb = [CHR 0xF0, CHR 0x9F, CHR 0x92, CHR 0xA1]"

definition palette :: string where
  "palette = [CHR 0xF0, CHR 0x9F, CHR 0x8E, CHR 0xA8]"

definition triangular_ruler :: string where
  "triangular_ruler = [CHR 0xF0, CHR 0x9F, CHR 0x93, CHR 0x90]"

text \<open>
  The two lines every handler runs on a non-200 reply:
  \<open>error_data = response.json() if response.headers.get("content-type", "")
  .startswith("application/json") else {"error": response.text}\<close>, then
  \<open>error_data.get('error', 'Unknown error')\<close> formatted into the message.
\<close>

definition error_data :: "response \<Rightarrow> exn + json_doc" where
  "error_data r =
     (if startswith (case content_type r of None \<Rightarrow> [] | Some h \<Rightarrow> h) ''application/json''
      then json_result r
      else Inr (JObject [''error'' \<mapsto> StrV (body_text r)]))"

fun get_error :: "json_doc \<Rightarrow> exn + py_value" where
  "get_error (JObject d) =
     Inr (case d ''error'' of None \<Rightarrow> StrV ''Unknown error'' | Some v \<Rightarrow> v)"
| "get_error JArray = Inl (AttributeError ''list'' ''get'')"
| "get_error (JScalar v) = Inl (AttributeError (type_name v) ''get'')"

definition failure_message :: "response \<Rightarrow> exn + string" where
  "failure_message r =
     (case error_data r of
        Inl e \<Rightarrow> Inl e
      | Inr d \<Rightarrow> (case get_error d of Inl e \<Rightarrow> Inl e | Inr v \<Rightarrow> Inr (py_str v)))"

section \<open>Base64 and the size in kilobytes\<close>

text \<open>
  \<open>base64.b64encode(data).decode()\<close> of the standard library, after RFC 4648: three bytes
  become four characters of the alphabet; a rest of one or two bytes is padded with \<open>=\<close>.
\<close>

definition b64_alphabet :: string where
  "b64_alphabet = ''ABCDEFGHIJKLMNOPQRSTUVWXYZabcdefghijklmnopqrstuvwxyz0123456789+/''"

definition b64_char :: "nat \<Rightarrow> char" where
  "b64_char n = b64_alphabet ! (n mod 64)"

fun b64encode :: "8 word list \<Rightarrow> string" where
  "b64encode [] = []"
| "b64encode [a] =
     (let n = unat a * 65536
      in [b64_char (n div 262144), b64_char (n div 4096), CHR ''='', CHR ''=''])"
| "b64encode [a, b] =
     (let n = unat a * 65536 + unat b * 256
      in [b64_char (n div 262144), b64_char (n div 4096), b64_char (n div 64), CHR ''=''])"
| "b64encode (a # b # c # rest) =
     (let n = unat a * 65536 + unat b * 256 + unat c
      in [b64_char (n div 262144), b64_char (n div 4096), b64_char (n div 64), b64_char n]
         @ b64encode rest)"

text \<open>
  The decoder of the same standard: the value of each character is its place in the
  alphabet; text outside the encoder's image is rejected.
\<close>

definition b64_value :: "char \<Rightarrow> nat option" where
  "b64_value c = map_of (zip b64_alphabet [0..<64]) c"

fun b64decode :: "string \<Rightarrow> 8 word list option" where
  "b64decode [] = Some []"
| "b64decode (c0 # c1 # c2 # c3 # rest) =
     (case (b64_value c0, b64_value c1) of
        (Some v0, Some v1) \<Rightarrow>
          if rest = [] \<and> c2 = CHR ''='' \<and> c3 = CHR ''=''
          then Some [of_nat ((v0 * 64 + v1) div 16)]
          else (case b64_value c2 of
                  None \<Rightarrow> None
                | Some v2 \<Rightarrow>
                    if rest = [] \<and> c3 = CHR ''=''
                    then (let n = v0 * 4096 + v1 * 64 + v2
                          in Some [of_nat (n div 1024), of_nat (n div 4)])
                    else (case b64_value c3 of
                            None \<Rightarrow> None
                          | Some v3 \<Rightarrow>
                              (let n = v0 * 262144 + v1 * 4096 + v2 * 64 + v3
                               in (case b64decode rest of
                                     None \<Rightarrow> None
                                   | Some bs \<Rightarrow>
                                       Some (of_nat (n div 65536) # of_nat (n div 256)
                                             # of_nat n # bs)))))
      | _ \<Rightarrow> None)"
| "b64decode _ = None"

text \<open>
  \<open>f"{len(png_data) / 1024:.1f}"\<close>: the quotient by 1024 is exact in binary floating
  point (for every length below \<open>2 ^ 53\<close>), and the format rounds it to one decimal,
  a tie going to the even digit.
\<close>

definition format_kb :: "nat \<Rightarrow> string" where
  "format_kb n =
     (let q = (10 * n) div 1024;
          r = (10 * n) mod 1024;
          t = (if r > 512 \<or> (r = 512 \<and> odd q) then q + 1 else q)
      in str_nat (t div 10) @ ''.'' @ str_nat (t mod 10))"

section \<open>Render handlers\<close>

text \<open>\<open>_render_svg\<close> (mcp_server.py, lines 139-168).\<close>

definition render_svg :: "server \<Rightarrow> http \<Rightarrow> arguments \<Rightarrow> outcome" where
  "render_svg self post arguments =
     (case arguments ''code'' of
        None \<Rightarrow> (Inl (KeyError ''code''), [])
      | Some code \<Rightarrow>
          (let theme = (case arguments ''theme'' of None \<Rightarrow> StrV ''modern'' | Some t \<Rightarrow> t);
               req = \<lparr>url = api_base_url self @ ''/api/render/svg'',
                      json = [(''code'', code), (''theme'', theme)],
                      timeout = 30\<rparr>
           in (case post req of
                 Inl e \<Rightarrow> (Inl e, [req])
               | Inr response \<Rightarrow>
                   if status_code response = 200
                   then (let svg_content = body_text response
                         in (Inr [TextContent ''text''
                               (check_mark @ '' SVG diagram generated successfully! (''
                                @ str_nat (length svg_content) @ '' characters)\<newline>\<newline>''
                                @ ''Theme: '' @ py_str theme @ ''\<newline>''
                                @ ''The SVG can be saved to a file or embedded directly in HTML.\<newline>\<newline>''
                                @ ''SVG Content:\<newline>```svg\<newline>'' @ svg_content @ ''\<newline>```'')],
                             [req]))
                   else (case failure_message response of
                           Inl e \<Rightarrow> (Inl e, [req])
                         | Inr m \<Rightarrow>
                             (Inr [TextContent ''text''
                                (cross_mark @ '' Failed to render SVG: '' @ m)],
                              [req])))))"

text \<open>\<open>_render_png\<close> (mcp_server.py, lines 170-208).\<close>

definition render_png :: "server \<Rightarrow> http \<Rightarrow> arguments \<Rightarrow> outcome" where
  "render_png self post arguments =
     (case arguments ''code'' of
        None \<Rightarrow> (Inl (KeyError ''code''), [])
      | Some code \<Rightarrow>
          (let theme = (case arguments ''theme'' of None \<Rightarrow> StrV ''modern'' | Some t \<Rightarrow> t);
               scale = (case arguments ''scale'' of None \<Rightarrow> IntV 2 | Some k \<Rightarrow> k);
               req = \<lparr>url = api_base_url self @ ''/api/render/png'',
                      json = [(''code'', code), (''theme'', theme), (''scale'', scale)],
                      timeout = 30\<rparr>
           in (case post req of
                 Inl e \<Rightarrow> (Inl e, [req])
               | Inr response \<Rightarrow>
                   if status_code response = 200
                   then (let png_data = content response;
                             png_base64 = b64encode png_data
                         in (Inr [TextContent ''text''
                               (check_mark @ '' PNG diagram generated successfully! (''
                                @ format_kb (length png_data) @ '' KB)\<newline>\<newline>''
                                @ ''Theme: '' @ py_str theme @ ''\<newline>''
                                @ ''Scale: '' @ py_str scale @ ''x\<newline>''
                                @ ''The PNG can be saved to a file or displayed in applications that support base64 images.\<newline>\<newline>''
                                @ ''To save this PNG, decode the base64 data below:\<newline>\<newline>''
                                @ ''```base64\<newline>'' @ png_base64 @ ''\<newline>```\<newline>\<newline>''
                                @ ''Or use this data URL in HTML:\<newline>''
                                @ ''```html\<newline><img src='' @ [CHR 0x22]
                                @ ''data:image/png;base64,'' @ png_base64 @ [CHR 0x22]
                                @ '' alt='' @ [CHR 0x22] @ ''Mermaid Diagram'' @ [CHR 0x22]
                                @ ''>\<newline>```'')],
                             [req]))
                   else (case failure_message response of
                           Inl e \<Rightarrow> (Inl e, [req])
                         | Inr m \<Rightarrow>
                             (Inr [TextContent ''text''
                                (cross_mark @ '' Failed to render PNG: '' @ m)],
                              [req])))))"

text \<open>The four fixed hints of the invalid-syntax report.\<close>

definition troubleshooting_hints :: "string list" where
  "troubleshooting_hints =
     [''- Proper diagram type declaration (graph, sequenceDiagram, etc.)'',
      ''- Correct arrow syntax (-->, ->>)'',
      ''- Balanced brackets and quotes'',
      ''- Valid node and edge definitions'']"

text \<open>
  \<open>_validate_mermaid\<close> (mcp_server.py, lines 210-249). On a 200 reply the report calls
  \<open>code.lower()\<close> first, which a value that is no string lacks.
\<close>

definition validate_mermaid :: "server \<Rightarrow> http \<Rightarrow> arguments \<Rightarrow> outcome" where
  "validate_mermaid self post arguments =
     (case arguments ''code'' of
        None \<Rightarrow> (Inl (KeyError ''code''), [])
      | Some code_value \<Rightarrow>
          (let req = \<lparr>url = api_base_url self @ ''/api/render/svg'',
                      json = [(''code'', code_value), (''theme'', StrV ''modern'')],
                      timeout = 15\<rparr>
           in (case post req of
                 Inl e \<Rightarrow> (Inl e, [req])
               | Inr response \<Rightarrow>
                   if status_code response = 200
                   then (case code_value of
                           StrV code \<Rightarrow>
                             (let diagram_type = detect_diagram_type code
                              in (Inr [TextContent ''text''
                                    (check_mark @ '' Mermaid syntax is valid!\<newline>\<newline>''
                                     @ ''Detected diagram type: '' @ diagram_type @ ''\<newline>''
                                     @ ''The diagram can be rendered successfully.\<newline>\<newline>''
                                     @ ''Code analysis:\<newline>''
                                     @ ''- Lines: '' @ str_nat (length (splitlines code)) @ ''\<newline>''
                                     @ ''- Characters: '' @ str_nat (length code) @ ''\<newline>''
                                     @ ''- Estimated complexity: '' @ estimate_complexity code)],
                                  [req]))
                         | _ \<Rightarrow> (Inl (AttributeError (type_name code_value) ''lower''), [req]))
                   else (case failure_message response of
                           Inl e \<Rightarrow> (Inl e, [req])
                         | Inr m \<Rightarrow>
                             (Inr [TextContent ''text''
                                (cross_mark @ '' Mermaid syntax is invalid!\<newline>\<newline>''
                                 @ ''Error: '' @ m @ ''\<newline>\<newline>''
                                 @ ''Common issues to check:\<newline>''
                                 @ join ''\<newline>'' troubleshooting_hints)],
                              [req])))))"

section \<open>Suggestions\<close>

text \<open>The suggestion lines of \<open>_suggest_improvements\<close>, in the order the source appends them.\<close>

definition empty_code_suggestion :: string where
  "empty_code_suggestion = ''- Code is empty. Add a diagram type declaration.''"

definition missing_declaration_suggestion :: string where
  "missing_declaration_suggestion =
     ''- Missing diagram type declaration. Start with '' @ [CHR 0x27] @ ''graph TD''
     @ [CHR 0x27] @ '', '' @ [CHR 0x27] @ ''sequenceDiagram'' @ [CHR 0x27] @ '', etc.''"

definition direction_suggestion :: string where
  "direction_suggestion =
     ''- Consider specifying graph direction: TD (top-down), LR (left-right), etc.''"

definition styling_suggestion :: string where
  "styling_suggestion =
     ''- Consider adding styling with classes or style definitions for better visual appeal''"

definition complexity_suggestion :: string where
  "complexity_suggestion =
     ''- High complexity detected. Consider breaking into multiple smaller diagrams''"

definition arrows_suggestion :: string where
  "arrows_suggestion = ''- Use arrows (-->) to connect flowchart nodes''"

definition shapes_suggestion :: string where
  "shapes_suggestion =
     ''- Use different node shapes: [] for rectangles, {} for diamonds, () for circles''"

definition participants_suggestion :: string where
  "participants_suggestion =
     ''- Define participants explicitly for cleaner sequence diagrams''"

definition notes_suggestion :: string where
  "notes_suggestion = ''- Consider adding notes to clarify important interactions''"

definition fallback_suggestion :: string where
  "fallback_suggestion =
     ''- Code looks good! Consider experimenting with themes for different visual styles''"

text \<open>The tuple of declaration keywords of line 268, compared as written (case matters).\<close>

definition declaration_keywords :: "string list" where
  "declaration_keywords =
     [''graph'', ''flowchart'', ''sequenceDiagram'', ''classDiagram'', ''stateDiagram'',
      ''gantt'', ''pie'', ''journey'', ''gitGraph'']"

text \<open>
  Lines 254-258: \<open>diagram_type = arguments.get("diagram_type")\<close>, replaced by the detected
  type when it is absent or otherwise false.
\<close>

definition resolve_diagram_type :: "py_value \<Rightarrow> string \<Rightarrow> py_value" where
  "resolve_diagram_type supplied code =
     (if \<not> truthy supplied then StrV (detect_diagram_type code) else supplied)"

text \<open>
  Lines 260-295: what the list \<open>suggestions\<close> holds after the checks that come before the
  final fallback, for a source text and the resolved diagram type. Each \<open>append\<close> of the
  source is one segment of the concatenation.
\<close>

definition rule_suggestions :: "string \<Rightarrow> py_value \<Rightarrow> string list" where
  "rule_suggestions code diagram_type =
     (let lines = splitlines (strip code);
          syntax_checks =
            (if lines = [] then [empty_code_suggestion]
             else if \<not> list_ex (\<lambda>line. startswith_any (strip line) declaration_keywords) lines
                  then [missing_declaration_suggestion]
             else []);
          direction =
            (if contains code ''graph'' \<and> \<not> contains code ''TD'' \<and> \<not> contains code ''LR''
                \<and> \<not> contains code ''TB'' \<and> \<not> contains code ''RL''
             then [direction_suggestion] else []);
          styling =
            (if length lines > 5 \<and> \<not> contains code ''class'' \<and> \<not> contains code ''style''
             then [styling_suggestion] else []);
          complexity = estimate_complexity code;
          high = (if complexity = ''High'' then [complexity_suggestion] else []);
          specific =
            (if diagram_type = StrV ''flowchart''
             then (if \<not> contains code ''-->'' \<and> \<not> contains code ''---''
                   then [arrows_suggestion] else [])
                  @ (if \<not> contains code ''{'' \<and> \<not> contains code ''['' \<and> \<not> contains code ''(''
                     then [shapes_suggestion] else [])
             else if diagram_type = StrV ''sequence''
             then (if \<not> contains code ''participant'' then [participants_suggestion] else [])
                  @ (if \<not> contains code ''note'' then [notes_suggestion] else [])
             else [])
      in syntax_checks @ direction @ styling @ high @ specific)"

text \<open>
  Lines 297-299: \<open>if not suggestions: suggestions.append(...)\<close>; the list the handler
  then joins into its report.
\<close>

definition suggestions :: "string \<Rightarrow> py_value \<Rightarrow> string list" where
  "suggestions code diagram_type =
     (let found = rule_suggestions code diagram_type
      in if found = [] then [fallback_suggestion] else found)"

text \<open>
  \<open>_suggest_improvements\<close> (mcp_server.py, lines 251-312). A \<open>code\<close> that is no string
  fails at its first method call: \<open>lower\<close> when the type is detected, \<open>strip\<close> otherwise.
\<close>

definition suggest_improvements :: "server \<Rightarrow> arguments \<Rightarrow> outcome" where
  "suggest_improvements self arguments =
     (case arguments ''code'' of
        None \<Rightarrow> (Inl (KeyError ''code''), [])
      | Some code_value \<Rightarrow>
          (let supplied = (case arguments ''diagram_type'' of None \<Rightarrow> NoneV | Some v \<Rightarrow> v)
           in (case code_value of
                 StrV code \<Rightarrow>
                   (let diagram_type = resolve_diagram_type supplied code;
                        lines = splitlines (strip code);
                        complexity = estimate_complexity code
                    in (Inr [TextContent ''text''
                          (bar_chart @ '' Mermaid Code Analysis\<newline>\<newline>''
                           @ ''Diagram Type: '' @ py_str diagram_type @ ''\<newline>''
                           @ ''Complexity: '' @ complexity @ ''\<newline>''
                           @ ''Lines: '' @ str_nat (length lines) @ ''\<newline>\<newline>''
                           @ light_bulb @ '' Suggestions for improvement:\<newline>''
                           @ join ''\<newline>'' (suggestions code diagram_type) @ ''\<newline>\<newline>''
                           @ palette @ '' Available themes: modern, classic, dark, minimal\<newline>''
                           @ triangular_ruler
                           @ '' Supported diagram types: flowchart, sequence, class, state, gantt, pie, journey, git'')],
                        []))
               | _ \<Rightarrow>
                   (Inl (AttributeError (type_name code_value)
                          (if \<not> truthy supplied then ''lower'' else ''strip'')),
                    []))))"

section \<open>Dispatcher\<close>

text \<open>
  The schema of \<open>handle_list_tools\<close> declares, for the optional arguments of the render
  tools, an enumeration of themes and bounds of the scale.
\<close>

definition declared_themes :: "string list" where
  "declared_themes = [''modern'', ''classic'', ''dark'', ''minimal'']"

definition declared_scale_minimum :: int where
  "declared_scale_minimum = 1"

definition declared_scale_maximum :: int where
  "declared_scale_maximum = 4"

text \<open>The body of the \<open>try\<close> in \<open>handle_call_tool\<close> (lines 122-131): routing by name.\<close>

definition call_tool_body :: "server \<Rightarrow> http \<Rightarrow> string \<Rightarrow> arguments \<Rightarrow> outcome" where
  "call_tool_body self post name arguments =
     (if name = ''render_mermaid_svg'' then render_svg self post arguments
      else if name = ''render_mermaid_png'' then render_png self post arguments
      else if name = ''validate_mermaid'' then validate_mermaid self post arguments
      else if name = ''suggest_mermaid_improvements'' then suggest_improvements self arguments
      else (Inl (ValueError (''Unknown tool: '' @ name)), []))"

text \<open>
  \<open>handle_call_tool\<close> (lines 115-137): \<open>except Exception\<close> turns whatever the body raised
  into one text block. The result keeps the shape of an outcome, so that a raise past
  the handler would show as \<open>Inl\<close>.
\<close>

definition handle_call_tool :: "server \<Rightarrow> http \<Rightarrow> string \<Rightarrow> arguments \<Rightarrow> outcome" where
  "handle_call_tool self post name arguments =
     (case call_tool_body self post name arguments of
        (Inl e, sent) \<Rightarrow> (Inr [TextContent ''text'' (''Error: '' @ message e)], sent)
      | (Inr result, sent) \<Rightarrow> (Inr result, sent))"

section \<open>The prefix table as the specification words it\<close>

text \<open>
  The specification's table of \<open>detectDiagramType\<close>: literal prefixes in priority order,
  the first that matches the lower-cased, trimmed source decides; no match is \<open>unknown\<close>.
\<close>

definition spec_prefix_table :: "(string \<times> string) list" where
  "spec_prefix_table =
     [(''sequencediagram'', ''sequence''), (''classdiagram'', ''class''),
      (''statediagram'', ''state''), (''gantt'', ''gantt''), (''pie'', ''pie''),
      (''journey'', ''journey''), (''gitgraph'', ''git''),
      (''graph'', ''flowchart''), (''flowchart'', ''flowchart'')]"

definition spec_detectDiagramType :: "string \<Rightarrow> string" where
  "spec_detectDiagramType code =
     (case find (\<lambda>(p, t). startswith (strip (lower code)) p) spec_prefix_table of
        None \<Rightarrow> ''unknown''
      | Some (p, t) \<Rightarrow> t)"

section \<open>Concrete inputs\<close>

text \<open>Twenty lines of eight characters each.\<close>

definition twenty_lines :: string where
  "twenty_lines = concat (replicate 20 ''A --> B\<newline>'')"

text \<open>A flowchart whose declaration keyword is capitalised.\<close>

definition capital_graph :: string where
  "capital_graph = ''Graph TD\<newline>A --> B''"

text \<open>A small class diagram that triggers none of the rules.\<close>

definition class_diagram :: string where
  "class_diagram = ''classDiagram\<newline>class Animal''"

text \<open>A small flowchart that triggers none of the rules.\<close>

definition tidy_flowchart :: string where
  "tidy_flowchart = ''graph TD\<newline>A[Start] --> B[End]''"

text \<open>A server whose configured base URL ends in a slash.\<close>

definition local_server :: server where
  "local_server = MermaidMCPServer ''http://localhost:5000/''"

text \<open>Argument mappings: with a \<open>code\<close> only; without \<open>code\<close>; with a theme outside the
  declared enumeration; with a scale above the declared maximum; with both.\<close>

definition graph_arguments :: arguments where
  "graph_arguments = [''code'' \<mapsto> StrV ''graph TD\<newline>A-->B'']"

definition theme_only_arguments :: arguments where
  "theme_only_arguments = [''theme'' \<mapsto> StrV ''dark'']"

definition neon_theme_arguments :: arguments where
  "neon_theme_arguments =
     [''code'' \<mapsto> StrV ''graph TD\<newline>A-->B'', ''theme'' \<mapsto> StrV ''neon'']"

definition large_scale_arguments :: arguments where
  "large_scale_arguments =
     [''code'' \<mapsto> StrV ''graph TD\<newline>A-->B'', ''scale'' \<mapsto> IntV 99]"

definition undeclared_arguments :: arguments where
  "undeclared_arguments =
     [''code'' \<mapsto> StrV ''graph TD\<newline>A-->B'', ''theme'' \<mapsto> StrV ''neon'',
      ''scale'' \<mapsto> IntV 99]"

text \<open>The bytes of a text of ASCII characters.\<close>

definition ascii_bytes :: "string \<Rightarrow> 8 word list" where
  "ascii_bytes s = map (\<lambda>c. of_nat (of_char c)) s"

text \<open>A service that cannot be reached: every call raises a connection failure.\<close>

definition refusing_post :: http where
  "refusing_post req = Inl (TransportError ''All connection attempts failed'')"

text \<open>A stub answering 500 with the JSON body \<open>{"error":"parse error"}\<close>.\<close>

definition parse_error_body :: string where
  "parse_error_body =
     ''{'' @ [CHR 0x22] @ ''error'' @ [CHR 0x22] @ '':'' @ [CHR 0x22] @ ''parse error''
     @ [CHR 0x22] @ ''}''"

definition parse_error_response :: response where
  "parse_error_response =
     \<lparr>status_code = 500, content_type = Some ''application/json'',
      body_text = parse_error_body, content = ascii_bytes parse_error_body,
      json_result = Inr (JObject [''error'' \<mapsto> StrV ''parse error''])\<rparr>"

definition parse_error_post :: http where
  "parse_error_post req = Inr parse_error_response"

text \<open>A stub answering 500 with the JSON body \<open>{"detail":"bad input"}\<close>, which has no
  \<open>error\<close> field.\<close>

definition missing_field_body :: string where
  "missing_field_body =
     ''{'' @ [CHR 0x22] @ ''detail'' @ [CHR 0x22] @ '':'' @ [CHR 0x22] @ ''bad input''
     @ [CHR 0x22] @ ''}''"

definition missing_field_response :: response where
  "missing_field_response =
     \<lparr>status_code = 500, content_type = Some ''application/json'',
      body_text = missing_field_body, content = ascii_bytes missing_field_body,
      json_result = Inr (JObject [''detail'' \<mapsto> StrV ''bad input''])\<rparr>"

definition missing_field_post :: http where
  "missing_field_post req = Inr missing_field_response"

text \<open>A gateway answering 502 with a plain-text body.\<close>

definition plain_text_response :: response where
  "plain_text_response =
     \<lparr>status_code = 502, content_type = Some ''text/plain'',
      body_text = ''Bad Gateway'', content = ascii_bytes ''Bad Gateway'',
      json_result = Inl (JSONDecodeError ''Expecting value: line 1 column 1 (char 0)'')\<rparr>"

definition plain_text_post :: http where
  "plain_text_post req = Inr plain_text_response"

text \<open>A stub answering 200 with SVG markup, and one answering 200 with five raw bytes.\<close>

definition svg_response :: response where
  "svg_response =
     \<lparr>status_code = 200, content_type = Some ''image/svg+xml'',
      body_text = ''<svg></svg>'', content = ascii_bytes ''<svg></svg>'',
      json_result = Inl (JSONDecodeError ''Expecting value: line 1 column 1 (char 0)'')\<rparr>"

definition svg_post :: http where
  "svg_post req = Inr svg_response"

definition png_bytes :: "8 word list" where
  "png_bytes = [0x89, 0x50, 0x4E, 0x47, 0x0D]"

definition png_response :: response where
  "png_response =
     \<lparr>status_code = 200, content_type = Some ''image/png'',
      body_text = map (\<lambda>b. char_of (unat b)) png_bytes, content = png_bytes,
      json_result = Inl (JSONDecodeError ''Expecting value: line 1 column 1 (char 0)'')\<rparr>"

definition png_post :: http where
  "png_post req = Inr png_response"

section \<open>Properties of the diagram heuristics\<close>

text \<open>
  C4. \<open>detect_diagram_type\<close> is a total function of its input that agrees, on every
  string, with the specification's prefix table read in priority order on the
  lower-cased, trimmed source; its result is always one of the nine type names. The two
  examples of the specification evaluate as stated.
\<close>

theorem detect_diagram_type_table:
  "detect_diagram_type code = spec_detectDiagramType code
   \<and> detect_diagram_type code \<in> set [''sequence'', ''class'', ''state'', ''gantt'', ''pie'',
        ''journey'', ''git'', ''flowchart'', ''unknown'']
   \<and> detect_diagram_type ''sequenceDiagram\<newline>A->>B: hi'' = ''sequence''
   \<and> detect_diagram_type ''foobar'' = ''unknown''"
proof -
  have a: "detect_diagram_type code = spec_detectDiagramType code"
    by (simp add: detect_diagram_type_def spec_detectDiagramType_def spec_prefix_table_def Let_def)
  have b: "detect_diagram_type code \<in> set [''sequence'', ''class'', ''state'', ''gantt'', ''pie'',
        ''journey'', ''git'', ''flowchart'', ''unknown'']"
    by (simp add: detect_diagram_type_def Let_def)
  have c: "detect_diagram_type ''sequenceDiagram\<newline>A->>B: hi'' = ''sequence''"
    by code_simp
  have d: "detect_diagram_type ''foobar'' = ''unknown''"
    by code_simp
  from a b c d show ?thesis by blast
qed

text \<open>
  C5. With \<open>L\<close> the number of lines and \<open>C\<close> the number of characters of the input,
  \<open>estimate_complexity\<close> is High exactly when \<open>L > 20\<close> or \<open>C > 1000\<close>, Medium exactly when
  it is not High and \<open>L > 10\<close> or \<open>C > 500\<close>, and Low otherwise. An input of exactly 20 lines
  and at most 1000 characters is not High.
\<close>

theorem estimate_complexity_tiers:
  "(estimate_complexity code = ''High''
      \<longleftrightarrow> length (splitlines code) > 20 \<or> length code > 1000)
   \<and> (estimate_complexity code = ''Medium''
      \<longleftrightarrow> \<not> (length (splitlines code) > 20 \<or> length code > 1000)
          \<and> (length (splitlines code) > 10 \<or> length code > 500))
   \<and> (estimate_complexity code = ''Low''
      \<longleftrightarrow> \<not> (length (splitlines code) > 20 \<or> length code > 1000)
          \<and> \<not> (length (splitlines code) > 10 \<or> length code > 500))
   \<and> (length (splitlines code) = 20 \<and> length code \<le> 1000
      \<longrightarrow> estimate_complexity code \<noteq> ''High'')"
  by (simp add: estimate_complexity_def Let_def)

theorem estimate_complexity_tiers_witness:
  "length (splitlines twenty_lines) = 20 \<and> length twenty_lines \<le> 1000
   \<and> estimate_complexity twenty_lines \<noteq> ''High''
   \<and> estimate_complexity twenty_lines = ''Medium''"
proof -
  have h: "length (splitlines twenty_lines) = 20 \<and> length twenty_lines \<le> 1000"
    by code_simp
  have m: "length (splitlines twenty_lines) > 10"
    by code_simp
  from h m estimate_complexity_tiers [of twenty_lines] show ?thesis by auto
qed

text \<open>The fallback line differs from every line a rule can emit.\<close>

lemma suggestion_lines_differ:
  "fallback_suggestion \<noteq> empty_code_suggestion"
  "fallback_suggestion \<noteq> missing_declaration_suggestion"
  "fallback_suggestion \<noteq> direction_suggestion"
  "fallback_suggestion \<noteq> styling_suggestion"
  "fallback_suggestion \<noteq> complexity_suggestion"
  "fallback_suggestion \<noteq> arrows_suggestion"
  "fallback_suggestion \<noteq> shapes_suggestion"
  "fallback_suggestion \<noteq> participants_suggestion"
  "fallback_suggestion \<noteq> notes_suggestion"
  by (simp_all add: fallback_suggestion_def empty_code_suggestion_def
      missing_declaration_suggestion_def direction_suggestion_def styling_suggestion_def
      complexity_suggestion_def arrows_suggestion_def shapes_suggestion_def
      participants_suggestion_def notes_suggestion_def)

text \<open>No rule emits the fallback line, and the rules are all silent exactly when none of
  their conditions holds.\<close>

lemma rule_suggestions_lines:
  "fallback_suggestion \<notin> set (rule_suggestions code diagram_type)"
  by (simp add: rule_suggestions_def Let_def suggestion_lines_differ)

lemma rule_suggestions_silent:
  "rule_suggestions code diagram_type = [] \<longleftrightarrow>
     splitlines (strip code) \<noteq> []
     \<and> list_ex (\<lambda>line. startswith_any (strip line) declaration_keywords)
           (splitlines (strip code))
     \<and> \<not> (contains code ''graph'' \<and> \<not> contains code ''TD'' \<and> \<not> contains code ''LR''
            \<and> \<not> contains code ''TB'' \<and> \<not> contains code ''RL'')
     \<and> \<not> (length (splitlines (strip code)) > 5 \<and> \<not> contains code ''class''
            \<and> \<not> contains code ''style'')
     \<and> estimate_complexity code \<noteq> ''High''
     \<and> (diagram_type = StrV ''flowchart''
          \<longrightarrow> (contains code ''-->'' \<or> contains code ''---'')
              \<and> (contains code ''{'' \<or> contains code ''['' \<or> contains code ''(''))
     \<and> (diagram_type = StrV ''sequence''
          \<longrightarrow> contains code ''participant'' \<and> contains code ''note'')"
  by (simp add: rule_suggestions_def Let_def)

text \<open>
  C6. For every source text and every diagram type, the list of suggestions is not empty.
  If rules 1 to 7 produce no suggestion, the list is the single fallback suggestion;
  otherwise it is exactly what the rules produced, without the fallback. The rules produce
  nothing exactly when none of their conditions holds. On the empty string the list holds
  the empty-code suggestion.
\<close>

theorem suggestions_nonempty:
  "suggestions code diagram_type \<noteq> []
   \<and> (rule_suggestions code diagram_type = []
        \<longrightarrow> suggestions code diagram_type = [fallback_suggestion])
   \<and> (rule_suggestions code diagram_type \<noteq> []
        \<longrightarrow> suggestions code diagram_type = rule_suggestions code diagram_type
            \<and> fallback_suggestion \<notin> set (suggestions code diagram_type))
   \<and> (rule_suggestions code diagram_type = [] \<longleftrightarrow>
         splitlines (strip code) \<noteq> []
         \<and> list_ex (\<lambda>line. startswith_any (strip line) declaration_keywords)
               (splitlines (strip code))
         \<and> \<not> (contains code ''graph'' \<and> \<not> contains code ''TD'' \<and> \<not> contains code ''LR''
                \<and> \<not> contains code ''TB'' \<and> \<not> contains code ''RL'')
         \<and> \<not> (length (splitlines (strip code)) > 5 \<and> \<not> contains code ''class''
                \<and> \<not> contains code ''style'')
         \<and> estimate_complexity code \<noteq> ''High''
         \<and> (diagram_type = StrV ''flowchart''
              \<longrightarrow> (contains code ''-->'' \<or> contains code ''---'')
                  \<and> (contains code ''{'' \<or> contains code ''['' \<or> contains code ''(''))
         \<and> (diagram_type = StrV ''sequence''
              \<longrightarrow> contains code ''participant'' \<and> contains code ''note''))
   \<and> (fallback_suggestion \<in> set (suggestions code diagram_type)
        \<longrightarrow> suggestions code diagram_type = [fallback_suggestion])
   \<and> empty_code_suggestion \<in> set (suggestions '''' diagram_type)
   \<and> suggestions '''' diagram_type \<noteq> []"
proof -
  have a: "\<And>c. suggestions c diagram_type \<noteq> []"
    by (simp add: suggestions_def Let_def)
  have b: "rule_suggestions code diagram_type = []
        \<longrightarrow> suggestions code diagram_type = [fallback_suggestion]"
    by (simp add: suggestions_def Let_def)
  have c: "rule_suggestions code diagram_type \<noteq> []
        \<longrightarrow> suggestions code diagram_type = rule_suggestions code diagram_type
            \<and> fallback_suggestion \<notin> set (suggestions code diagram_type)"
    using rule_suggestions_lines [of code diagram_type] by (simp add: suggestions_def Let_def)
  have f: "fallback_suggestion \<in> set (suggestions code diagram_type)
        \<longrightarrow> suggestions code diagram_type = [fallback_suggestion]"
    using rule_suggestions_lines [of code diagram_type] by (simp add: suggestions_def Let_def)
  have s: "strip '''' = ''''" by (simp add: strip_def)
  have l: "splitlines '''' = []" by (simp add: splitlines_def)
  have e: "empty_code_suggestion \<in> set (suggestions '''' diagram_type)"
    by (simp add: suggestions_def rule_suggestions_def Let_def s l)
  from a b c f e rule_suggestions_silent [of code diagram_type] show ?thesis
    by (intro conjI)
qed

theorem suggestions_nonempty_witness:
  "rule_suggestions tidy_flowchart (StrV ''flowchart'') = []
   \<and> suggestions tidy_flowchart (StrV ''flowchart'') = [fallback_suggestion]
   \<and> resolve_diagram_type NoneV class_diagram = StrV ''class''
   \<and> rule_suggestions class_diagram (StrV ''class'') = []
   \<and> suggestions class_diagram (StrV ''class'') = [fallback_suggestion]
   \<and> rule_suggestions capital_graph (StrV ''flowchart'') = [missing_declaration_suggestion, shapes_suggestion]
   \<and> suggestions capital_graph (StrV ''flowchart'') = [missing_declaration_suggestion, shapes_suggestion]"
proof -
  have h1: "rule_suggestions tidy_flowchart (StrV ''flowchart'') = []"
    by code_simp
  have h2: "rule_suggestions class_diagram (StrV ''class'') = []"
    by code_simp
  have h3: "rule_suggestions capital_graph (StrV ''flowchart'') = [missing_declaration_suggestion, shapes_suggestion]"
    by code_simp
  have h4: "resolve_diagram_type NoneV class_diagram = StrV ''class''"
    by code_simp
  have r1: "suggestions tidy_flowchart (StrV ''flowchart'') = [fallback_suggestion]"
    by (rule suggestions_nonempty [of tidy_flowchart "StrV ''flowchart''",
          THEN conjunct2, THEN conjunct1, THEN mp, OF h1])
  have r2: "suggestions class_diagram (StrV ''class'') = [fallback_suggestion]"
    by (rule suggestions_nonempty [of class_diagram "StrV ''class''",
          THEN conjunct2, THEN conjunct1, THEN mp, OF h2])
  have n3: "rule_suggestions capital_graph (StrV ''flowchart'') \<noteq> []"
    by (simp only: h3 list.distinct not_False_eq_True)
  have "suggestions capital_graph (StrV ''flowchart'')
          = rule_suggestions capital_graph (StrV ''flowchart'')"
    by (rule suggestions_nonempty [of capital_graph "StrV ''flowchart''",
          THEN conjunct2, THEN conjunct2, THEN conjunct1, THEN mp, OF n3, THEN conjunct1])
  then have r3: "suggestions capital_graph (StrV ''flowchart'')
          = [missing_declaration_suggestion, shapes_suggestion]"
    by (simp only: h3)
  from h1 r1 h4 h2 r2 h3 r3 show ?thesis by (intro conjI)
qed

text \<open>
  C10. The declaration check compares keywords as written while type detection lower-cases:
  there is an input (\<open>Graph TD\<close> followed by an edge) that \<open>detect_diagram_type\<close> takes for
  a flowchart and for which, no diagram type being supplied, the suggestions contain the
  missing-declaration line.
\<close>

theorem case_mismatch:
  "\<exists>code. detect_diagram_type code = ''flowchart''
     \<and> missing_declaration_suggestion \<in> set (suggestions code (resolve_diagram_type NoneV code))"
proof -
  have "detect_diagram_type capital_graph = ''flowchart''
     \<and> missing_declaration_suggestion
         \<in> set (suggestions capital_graph (resolve_diagram_type NoneV capital_graph))"
    by code_simp
  then show ?thesis by blast
qed

section \<open>Properties of the dispatcher\<close>

text \<open>Each handler either raises or returns exactly one text block.\<close>

lemma render_svg_shape:
  "(\<exists>e. fst (render_svg self post arguments) = Inl e)
   \<or> (\<exists>t. fst (render_svg self post arguments) = Inr [TextContent ''text'' t])"
  by (simp add: render_svg_def Let_def split: option.split sum.split)

lemma render_svg_block:
  "fst (render_svg self post arguments) = Inr r \<Longrightarrow> \<exists>t. r = [TextContent ''text'' t]"
  using render_svg_shape [of self post arguments] by auto

lemma render_png_shape:
  "(\<exists>e. fst (render_png self post arguments) = Inl e)
   \<or> (\<exists>t. fst (render_png self post arguments) = Inr [TextContent ''text'' t])"
  by (simp add: render_png_def Let_def split: option.split sum.split)

lemma render_png_block:
  "fst (render_png self post arguments) = Inr r \<Longrightarrow> \<exists>t. r = [TextContent ''text'' t]"
  using render_png_shape [of self post arguments] by auto

lemma validate_mermaid_shape:
  "(\<exists>e. fst (validate_mermaid self post arguments) = Inl e)
   \<or> (\<exists>t. fst (validate_mermaid self post arguments) = Inr [TextContent ''text'' t])"
  by (simp add: validate_mermaid_def Let_def split: option.split sum.split py_value.split)

lemma validate_mermaid_block:
  "fst (validate_mermaid self post arguments) = Inr r \<Longrightarrow> \<exists>t. r = [TextContent ''text'' t]"
  using validate_mermaid_shape [of self post arguments] by auto

lemma suggest_improvements_shape:
  "(\<exists>e. fst (suggest_improvements self arguments) = Inl e)
   \<or> (\<exists>t. fst (suggest_improvements self arguments) = Inr [TextContent ''text'' t])"
  by (simp add: suggest_improvements_def Let_def split: option.split py_value.split)

lemma suggest_improvements_block:
  "fst (suggest_improvements self arguments) = Inr r \<Longrightarrow> \<exists>t. r = [TextContent ''text'' t]"
  using suggest_improvements_shape [of self arguments] by auto

lemma call_tool_body_block:
  "fst (call_tool_body self post name arguments) = Inr r \<Longrightarrow> \<exists>t. r = [TextContent ''text'' t]"
  unfolding call_tool_body_def
  by (auto dest: render_svg_block render_png_block validate_mermaid_block
      suggest_improvements_block split: if_split_asm)

lemma handle_call_tool_fst:
  "fst (handle_call_tool self post name arguments) =
     (case fst (call_tool_body self post name arguments) of
        Inl e \<Rightarrow> Inr [TextContent ''text'' (''Error: '' @ message e)]
      | Inr r \<Rightarrow> Inr r)"
  by (simp add: handle_call_tool_def split: prod.splits sum.splits)

lemma handle_call_tool_snd:
  "snd (handle_call_tool self post name arguments) = snd (call_tool_body self post name arguments)"
  by (simp add: handle_call_tool_def split: prod.splits sum.splits)

text \<open>
  C1. For every tool name and every argument mapping, \<open>handle_call_tool\<close> returns one text
  block and raises nothing. Whenever the routed handler fails, the text is \<open>Error: \<close>
  followed by the message of the failure: for a name outside the registry the message
  names the unknown tool, and for a registered tool called without \<open>code\<close> it is the
  quoted key; neither makes an outbound call.
\<close>

theorem handle_call_tool_total:
  "(\<exists>t. fst (handle_call_tool self post name arguments) = Inr [TextContent ''text'' t])
   \<and> (\<forall>e. fst (call_tool_body self post name arguments) = Inl e
          \<longrightarrow> fst (handle_call_tool self post name arguments)
                = Inr [TextContent ''text'' (''Error: '' @ message e)])
   \<and> (name \<notin> set [''render_mermaid_svg'', ''render_mermaid_png'', ''validate_mermaid'',
                     ''suggest_mermaid_improvements'']
          \<longrightarrow> handle_call_tool self post name arguments
                = (Inr [TextContent ''text'' (''Error: Unknown tool: '' @ name)], []))
   \<and> (name \<in> set [''render_mermaid_svg'', ''render_mermaid_png'', ''validate_mermaid'',
                     ''suggest_mermaid_improvements''] \<and> arguments ''code'' = None
          \<longrightarrow> handle_call_tool self post name arguments
                = (Inr [TextContent ''text'' (''Error: '' @ [CHR 0x27] @ ''code'' @ [CHR 0x27])], []))"
proof -
  have a: "\<exists>t. fst (handle_call_tool self post name arguments) = Inr [TextContent ''text'' t]"
  proof (cases "fst (call_tool_body self post name arguments)")
    case (Inl e)
    then show ?thesis by (simp add: handle_call_tool_fst)
  next
    case (Inr r)
    then obtain t where "r = [TextContent ''text'' t]"
      using call_tool_body_block by blast
    with Inr show ?thesis by (simp add: handle_call_tool_fst)
  qed
  have b: "\<forall>e. fst (call_tool_body self post name arguments) = Inl e
          \<longrightarrow> fst (handle_call_tool self post name arguments)
                = Inr [TextContent ''text'' (''Error: '' @ message e)]"
    by (simp add: handle_call_tool_fst)
  have c: "name \<notin> set [''render_mermaid_svg'', ''render_mermaid_png'', ''validate_mermaid'',
                     ''suggest_mermaid_improvements'']
          \<longrightarrow> handle_call_tool self post name arguments
                = (Inr [TextContent ''text'' (''Error: Unknown tool: '' @ name)], [])"
    by (simp add: handle_call_tool_def call_tool_body_def)
  have d: "name \<in> set [''render_mermaid_svg'', ''render_mermaid_png'', ''validate_mermaid'',
                     ''suggest_mermaid_improvements''] \<and> arguments ''code'' = None
          \<longrightarrow> handle_call_tool self post name arguments
                = (Inr [TextContent ''text'' (''Error: '' @ [CHR 0x27] @ ''code'' @ [CHR 0x27])], [])"
  proof -
    have "render_svg self post arguments = (Inl (KeyError ''code''), [])"
      if "arguments ''code'' = None"
      using that by (simp add: render_svg_def)
    moreover have "render_png self post arguments = (Inl (KeyError ''code''), [])"
      if "arguments ''code'' = None"
      using that by (simp add: render_png_def)
    moreover have "validate_mermaid self post arguments = (Inl (KeyError ''code''), [])"
      if "arguments ''code'' = None"
      using that by (simp add: validate_mermaid_def)
    moreover have "suggest_improvements self arguments = (Inl (KeyError ''code''), [])"
      if "arguments ''code'' = None"
      using that by (simp add: suggest_improvements_def)
    ultimately show ?thesis
      by (auto simp: handle_call_tool_def call_tool_body_def)
  qed
  from a b c d show ?thesis by blast
qed

theorem handle_call_tool_total_witness:
  "fst (call_tool_body local_server refusing_post ''no_such_tool'' graph_arguments)
     = Inl (ValueError ''Unknown tool: no_such_tool'')
   \<and> handle_call_tool local_server refusing_post ''no_such_tool'' graph_arguments
     = (Inr [TextContent ''text'' ''Error: Unknown tool: no_such_tool''], [])
   \<and> handle_call_tool local_server refusing_post ''validate_mermaid'' theme_only_arguments
     = (Inr [TextContent ''text'' (''Error: '' @ [CHR 0x27] @ ''code'' @ [CHR 0x27])], [])"
proof -
  have h1: "fst (call_tool_body local_server refusing_post ''no_such_tool'' graph_arguments)
     = Inl (ValueError ''Unknown tool: no_such_tool'')"
    by (simp add: call_tool_body_def)
  have h2: "''no_such_tool'' \<notin> set [''render_mermaid_svg'', ''render_mermaid_png'',
      ''validate_mermaid'', ''suggest_mermaid_improvements'']"
    by simp
  have h3: "''validate_mermaid'' \<in> set [''render_mermaid_svg'', ''render_mermaid_png'',
      ''validate_mermaid'', ''suggest_mermaid_improvements'']
      \<and> theme_only_arguments ''code'' = None"
    by (simp add: theme_only_arguments_def)
  from handle_call_tool_total [of local_server refusing_post "''no_such_tool''" graph_arguments]
    h1 h2
  have r1: "handle_call_tool local_server refusing_post ''no_such_tool'' graph_arguments
     = (Inr [TextContent ''text'' ''Error: Unknown tool: no_such_tool''], [])"
    by simp
  from handle_call_tool_total [of local_server refusing_post "''validate_mermaid''"
      theme_only_arguments] h3
  have r2: "handle_call_tool local_server refusing_post ''validate_mermaid'' theme_only_arguments
     = (Inr [TextContent ''text'' (''Error: '' @ [CHR 0x27] @ ''code'' @ [CHR 0x27])], [])"
    by blast
  from h1 r1 r2 show ?thesis by blast
qed

text \<open>
  C7. Dispatching \<open>render_mermaid_svg\<close> with an argument mapping that lacks \<open>code\<close> yields
  the single block \<open>Error: 'code'\<close> and makes no outbound call, whatever the service
  would have answered.
\<close>

theorem render_svg_missing_code:
  "arguments ''code'' = None \<Longrightarrow>
     handle_call_tool self post ''render_mermaid_svg'' arguments
       = (Inr [TextContent ''text'' (''Error: '' @ [CHR 0x27] @ ''code'' @ [CHR 0x27])], [])"
  by (simp add: handle_call_tool_def call_tool_body_def render_svg_def)

theorem render_svg_missing_code_witness:
  "theme_only_arguments ''code'' = None
   \<and> handle_call_tool local_server refusing_post ''render_mermaid_svg'' theme_only_arguments
       = (Inr [TextContent ''text'' (''Error: '' @ [CHR 0x27] @ ''code'' @ [CHR 0x27])], [])
   \<and> snd (handle_call_tool local_server refusing_post ''render_mermaid_svg'' theme_only_arguments)
       = []"
proof -
  have h: "theme_only_arguments ''code'' = None"
    by (simp add: theme_only_arguments_def)
  from render_svg_missing_code [of theme_only_arguments local_server refusing_post] h
  show ?thesis by simp
qed

section \<open>Base64 round trip\<close>

lemma b64_alphabet_length: "length b64_alphabet = 64"
  by (simp add: b64_alphabet_def)

lemma b64_alphabet_distinct: "distinct b64_alphabet"
  by (simp add: b64_alphabet_def)

lemma b64_value_char: "b64_value (b64_char n) = Some (n mod 64)"
proof -
  have "map_of (zip b64_alphabet [0..<64]) (b64_alphabet ! (n mod 64)) = Some ([0..<64] ! (n mod 64))"
    by (rule map_of_zip_nth) (simp_all add: b64_alphabet_length b64_alphabet_distinct)
  then show ?thesis
    by (simp add: b64_value_def b64_char_def)
qed

lemma b64_pad_value: "b64_value (CHR ''='') = None"
  by (simp add: b64_value_def b64_alphabet_length) (simp add: b64_alphabet_def)

lemma b64_char_not_pad: "b64_char n \<noteq> CHR ''=''"
proof
  assume "b64_char n = CHR ''=''"
  then have "b64_value (CHR ''='') = Some (n mod 64)"
    using b64_value_char [of n] by simp
  then show False by (simp add: b64_pad_value)
qed

lemma base64_digits:
  fixes n :: nat
  assumes "n < 16777216"
  shows "(n div 262144) mod 64 * 262144 + (n div 4096) mod 64 * 4096
         + (n div 64) mod 64 * 64 + n mod 64 = n"
proof -
  define q1 where "q1 = n div 64"
  define q2 where "q2 = q1 div 64"
  define q3 where "q3 = q2 div 64"
  define m0 where "m0 = n mod 64"
  define m1 where "m1 = q1 mod 64"
  define m2 where "m2 = q2 mod 64"
  have a: "n div 4096 = q2" by (simp add: q1_def q2_def div_mult2_eq)
  have b: "n div 262144 = q3" by (simp add: q1_def q2_def q3_def div_mult2_eq)
  have "q3 < 64" using assms unfolding b [symmetric] by simp
  then have c: "q3 mod 64 = q3" by simp
  have e: "n = q1 * 64 + m0" by (simp add: q1_def m0_def)
  have f: "q1 = q2 * 64 + m1" by (simp add: q2_def m1_def)
  have g: "q2 = q3 * 64 + m2" by (simp add: q3_def m2_def)
  have "q3 * 262144 + m2 * 4096 + m1 * 64 + m0 = n"
    using e f g by linarith
  then show ?thesis
    by (simp add: a b c q1_def [symmetric] m0_def m1_def m2_def)
qed

lemma unat_byte: "unat (a :: 8 word) < 256"
  using unsigned_less [of a, where ?'a = nat] by simp

lemma byte_of_nat:
  assumes "n mod 256 = unat (b :: 8 word)"
  shows "of_nat n = b"
proof -
  have "(of_nat n :: 8 word) = of_nat (n mod 256)"
    by (simp add: word_of_nat_eq_iff take_bit_eq_mod)
  then show ?thesis using assms by simp
qed

lemma decode_group1:
  "b64decode [b64_char v, b64_char w, CHR ''='', CHR ''='']
     = Some [of_nat ((v mod 64 * 64 + w mod 64) div 16)]"
  by (simp add: b64_value_char)

lemma decode_group2:
  "b64decode [b64_char u, b64_char v, b64_char w, CHR ''='']
     = Some [of_nat ((u mod 64 * 4096 + v mod 64 * 64 + w mod 64) div 1024),
             of_nat ((u mod 64 * 4096 + v mod 64 * 64 + w mod 64) div 4)]"
  by (simp add: b64_value_char b64_char_not_pad Let_def)

lemma decode_group3:
  "b64decode (b64_char u # b64_char v # b64_char w # b64_char x # rest)
     = (case b64decode rest of
          None \<Rightarrow> None
        | Some bs \<Rightarrow>
            Some (of_nat ((u mod 64 * 262144 + v mod 64 * 4096 + w mod 64 * 64 + x mod 64) div 65536)
                  # of_nat ((u mod 64 * 262144 + v mod 64 * 4096 + w mod 64 * 64 + x mod 64) div 256)
                  # of_nat (u mod 64 * 262144 + v mod 64 * 4096 + w mod 64 * 64 + x mod 64) # bs))"
  by (simp add: b64_value_char b64_char_not_pad Let_def)

lemma b64_roundtrip: "b64decode (b64encode bs) = Some bs"
proof (induction bs rule: b64encode.induct)
  case 1
  show ?case by simp
next
  case (2 a)
  define n where "n = unat a * 65536"
  define v where "v = (n div 262144) mod 64"
  define w where "w = (n div 4096) mod 64"
  define p where "p = (n div 64) mod 64"
  define q where "q = n mod 64"
  have n: "n < 16777216" using unat_byte [of a] by (simp add: n_def)
  have z: "p = 0" "q = 0" by (simp_all add: p_def q_def n_def)
  have "v * 262144 + w * 4096 + p * 64 + q = n"
    unfolding v_def w_def p_def q_def by (rule base64_digits [OF n])
  with z have "v * 64 + w = unat a * 16"
    unfolding n_def by linarith
  then have "(v * 64 + w) div 16 = unat a"
    by simp
  then have "(of_nat ((v * 64 + w) div 16) :: 8 word) = a"
    by simp
  moreover have "b64encode [a] = [b64_char (n div 262144), b64_char (n div 4096), CHR ''='', CHR ''='']"
    unfolding n_def b64encode.simps Let_def ..
  ultimately show ?case
    unfolding v_def w_def by (simp only: decode_group1)
next
  case (3 a b)
  define n where "n = unat a * 65536 + unat b * 256"
  define m where "m = (n div 262144) mod 64 * 4096 + (n div 4096) mod 64 * 64 + (n div 64) mod 64"
  define q where "q = n mod 64"
  have n: "n < 16777216" using unat_byte [of a] unat_byte [of b] by (simp add: n_def)
  have z: "q = 0" by (simp add: q_def n_def)
  have "(n div 262144) mod 64 * 262144 + (n div 4096) mod 64 * 4096
         + (n div 64) mod 64 * 64 + q = n"
    unfolding q_def by (rule base64_digits [OF n])
  then have "m * 64 + q = n"
    unfolding m_def by (simp only: distrib_right mult.assoc)
  with z have m: "m = unat a * 1024 + unat b * 4"
    unfolding n_def by linarith
  have "m div 1024 = unat a"
    using unat_byte [of b] by (simp add: m)
  then have h: "(of_nat (m div 1024) :: 8 word) = a"
    by simp
  have "m div 4 = unat a * 256 + unat b"
    by (simp add: m)
  then have "(m div 4) mod 256 = unat b"
    using unat_byte [of b] by simp
  then have l: "(of_nat (m div 4) :: 8 word) = b"
    by (rule byte_of_nat)
  have "b64encode [a, b] = [b64_char (n div 262144), b64_char (n div 4096), b64_char (n div 64), CHR ''='']"
    unfolding n_def b64encode.simps Let_def ..
  then show ?case
    using h l by (simp only: decode_group2 m_def)
next
  case (4 a b c rest)
  define n where "n = unat a * 65536 + unat b * 256 + unat c"
  have n: "n < 16777216"
    using unat_byte [of a] unat_byte [of b] unat_byte [of c] by (simp add: n_def)
  have d: "(n div 262144) mod 64 * 262144 + (n div 4096) mod 64 * 4096
         + (n div 64) mod 64 * 64 + n mod 64 = n"
    by (rule base64_digits [OF n])
  have "n div 65536 = unat a"
    using unat_byte [of b] unat_byte [of c] by (simp add: n_def)
  then have h: "(of_nat (n div 65536) :: 8 word) = a"
    by simp
  have "n div 256 = unat a * 256 + unat b"
    using unat_byte [of c] by (simp add: n_def)
  then have "(n div 256) mod 256 = unat b"
    using unat_byte [of b] by simp
  then have k: "(of_nat (n div 256) :: 8 word) = b"
    by (rule byte_of_nat)
  define k where "k = unat a * 256 + unat b"
  have nk: "n = k * 256 + unat c"
    unfolding n_def k_def by (simp add: distrib_right)
  have "n mod 256 = unat c mod 256"
    unfolding nk by (rule mod_mult_self3)
  then have "n mod 256 = unat c"
    using unat_byte [of c] by simp
  then have l: "(of_nat n :: 8 word) = c"
    by (rule byte_of_nat)
  have "b64encode (a # b # c # rest)
          = b64_char (n div 262144) # b64_char (n div 4096) # b64_char (n div 64) # b64_char n
            # b64encode rest"
    unfolding n_def b64encode.simps Let_def by simp
  then show ?case
    using 4 by (simp only: decode_group3 d h k l option.case)
qed

section \<open>Properties of the render handlers\<close>

text \<open>Without \<open>code\<close> a handler raises before it builds a request.\<close>

lemma render_svg_without_code:
  "arguments ''code'' = None \<Longrightarrow> render_svg self post arguments = (Inl (KeyError ''code''), [])"
  by (simp add: render_svg_def)

lemma render_png_without_code:
  "arguments ''code'' = None \<Longrightarrow> render_png self post arguments = (Inl (KeyError ''code''), [])"
  by (simp add: render_png_def)

lemma validate_mermaid_without_code:
  "arguments ''code'' = None \<Longrightarrow>
     validate_mermaid self post arguments = (Inl (KeyError ''code''), [])"
  by (simp add: validate_mermaid_def)

text \<open>A transport failure of the one outbound call leaves the handler as it was raised.\<close>

lemma render_svg_raise:
  assumes "snd (render_svg self post arguments) = [req]" and "post req = Inl e"
  shows "render_svg self post arguments = (Inl e, [req])"
proof (cases "arguments ''code''")
  case None
  with assms(1) show ?thesis by (simp add: render_svg_without_code)
next
  case (Some code)
  define sent where "sent = \<lparr>url = api_base_url self @ ''/api/render/svg'',
    json = [(''code'', code),
            (''theme'', case arguments ''theme'' of None \<Rightarrow> StrV ''modern'' | Some t \<Rightarrow> t)],
    timeout = 30\<rparr>"
  have "snd (render_svg self post arguments) = [sent]"
    using Some by (simp add: render_svg_def Let_def sent_def split: sum.split)
  with assms(1) have "req = sent" by simp
  with assms(2) have "post sent = Inl e" by simp
  then have "render_svg self post arguments = (Inl e, [sent])"
    using Some by (simp add: render_svg_def Let_def sent_def)
  with \<open>req = sent\<close> show ?thesis by simp
qed

lemma render_png_raise:
  assumes "snd (render_png self post arguments) = [req]" and "post req = Inl e"
  shows "render_png self post arguments = (Inl e, [req])"
proof (cases "arguments ''code''")
  case None
  with assms(1) show ?thesis by (simp add: render_png_without_code)
next
  case (Some code)
  define sent where "sent = \<lparr>url = api_base_url self @ ''/api/render/png'',
    json = [(''code'', code),
            (''theme'', case arguments ''theme'' of None \<Rightarrow> StrV ''modern'' | Some t \<Rightarrow> t),
            (''scale'', case arguments ''scale'' of None \<Rightarrow> IntV 2 | Some k \<Rightarrow> k)],
    timeout = 30\<rparr>"
  have "snd (render_png self post arguments) = [sent]"
    using Some by (simp add: render_png_def Let_def sent_def split: sum.split)
  with assms(1) have "req = sent" by simp
  with assms(2) have "post sent = Inl e" by simp
  then have "render_png self post arguments = (Inl e, [sent])"
    using Some by (simp add: render_png_def Let_def sent_def)
  with \<open>req = sent\<close> show ?thesis by simp
qed

text \<open>
  C2, as stated, fails: with the service unreachable, \<open>_render_svg\<close> does not return a
  failure report; the connection failure leaves the handler as a raised exception.
\<close>

theorem render_svg_raises_transport_failure:
  "fst (render_svg local_server refusing_post graph_arguments)
     = Inl (TransportError ''All connection attempts failed'')"
  by (simp add: render_svg_def graph_arguments_def refusing_post_def Let_def)

text \<open>
  C2, amended. A transport failure of the outbound call is not caught inside
  \<open>_render_svg\<close> or \<open>_render_png\<close>: the handler raises it unchanged, and \<open>handle_call_tool\<close>
  turns it into the single block \<open>Error: \<close> followed by its message, after exactly that
  one outbound call.
\<close>

theorem transport_failure_propagates:
  "(snd (render_svg self post arguments) = [req] \<and> post req = Inl e
      \<longrightarrow> fst (render_svg self post arguments) = Inl e
        \<and> handle_call_tool self post ''render_mermaid_svg'' arguments
            = (Inr [TextContent ''text'' (''Error: '' @ message e)], [req]))
   \<and> (snd (render_png self post arguments) = [req] \<and> post req = Inl e
      \<longrightarrow> fst (render_png self post arguments) = Inl e
        \<and> handle_call_tool self post ''render_mermaid_png'' arguments
            = (Inr [TextContent ''text'' (''Error: '' @ message e)], [req]))"
proof -
  have a: "fst (render_svg self post arguments) = Inl e
        \<and> handle_call_tool self post ''render_mermaid_svg'' arguments
            = (Inr [TextContent ''text'' (''Error: '' @ message e)], [req])"
    if "snd (render_svg self post arguments) = [req]" and "post req = Inl e"
    using render_svg_raise [OF that] by (simp add: handle_call_tool_def call_tool_body_def)
  have b: "fst (render_png self post arguments) = Inl e
        \<and> handle_call_tool self post ''render_mermaid_png'' arguments
            = (Inr [TextContent ''text'' (''Error: '' @ message e)], [req])"
    if "snd (render_png self post arguments) = [req]" and "post req = Inl e"
    using render_png_raise [OF that] by (simp add: handle_call_tool_def call_tool_body_def)
  from a b show ?thesis by blast
qed


theorem transport_failure_propagates_witness:
  "snd (render_svg local_server refusing_post graph_arguments)
     = [\<lparr>url = ''http://localhost:5000/api/render/svg'',
         json = [(''code'', StrV ''graph TD\<newline>A-->B''), (''theme'', StrV ''modern'')],
         timeout = 30\<rparr>]
   \<and> handle_call_tool local_server refusing_post ''render_mermaid_svg'' graph_arguments
     = (Inr [TextContent ''text'' ''Error: All connection attempts failed''],
        [\<lparr>url = ''http://localhost:5000/api/render/svg'',
          json = [(''code'', StrV ''graph TD\<newline>A-->B''), (''theme'', StrV ''modern'')],
          timeout = 30\<rparr>])
   \<and> snd (render_png local_server refusing_post graph_arguments)
     = [\<lparr>url = ''http://localhost:5000/api/render/png'',
         json = [(''code'', StrV ''graph TD\<newline>A-->B''), (''theme'', StrV ''modern''),
                 (''scale'', IntV 2)],
         timeout = 30\<rparr>]
   \<and> handle_call_tool local_server refusing_post ''render_mermaid_png'' graph_arguments
     = (Inr [TextContent ''text'' ''Error: All connection attempts failed''],
        [\<lparr>url = ''http://localhost:5000/api/render/png'',
          json = [(''code'', StrV ''graph TD\<newline>A-->B''), (''theme'', StrV ''modern''),
                  (''scale'', IntV 2)],
          timeout = 30\<rparr>])"
proof -
  let ?svg = "\<lparr>url = ''http://localhost:5000/api/render/svg'',
         json = [(''code'', StrV ''graph TD\<newline>A-->B''), (''theme'', StrV ''modern'')],
         timeout = 30\<rparr>"
  let ?png = "\<lparr>url = ''http://localhost:5000/api/render/png'',
         json = [(''code'', StrV ''graph TD\<newline>A-->B''), (''theme'', StrV ''modern''),
                 (''scale'', IntV 2)],
         timeout = 30\<rparr>"
  let ?e = "TransportError ''All connection attempts failed''"
  have u: "api_base_url local_server = ''http://localhost:5000''"
    by (simp add: local_server_def MermaidMCPServer_def rstrip_slash_def)
  have s: "snd (render_svg local_server refusing_post graph_arguments) = [?svg]"
    by (simp add: render_svg_def graph_arguments_def refusing_post_def Let_def u)
  have p: "snd (render_png local_server refusing_post graph_arguments) = [?png]"
    by (simp add: render_png_def graph_arguments_def refusing_post_def Let_def u)
  have f: "refusing_post ?svg = Inl ?e" "refusing_post ?png = Inl ?e"
    by (simp_all add: refusing_post_def)
  from transport_failure_propagates [of local_server refusing_post graph_arguments ?svg ?e] s f
  have a: "handle_call_tool local_server refusing_post ''render_mermaid_svg'' graph_arguments
     = (Inr [TextContent ''text'' ''Error: All connection attempts failed''], [?svg])"
    by simp
  from transport_failure_propagates [of local_server refusing_post graph_arguments ?png ?e] p f
  have b: "handle_call_tool local_server refusing_post ''render_mermaid_png'' graph_arguments
     = (Inr [TextContent ''text'' ''Error: All connection attempts failed''], [?png])"
    by simp
  from s p a b show ?thesis by simp
qed

text \<open>What each handler reports for a reply other than 200.\<close>

lemma validate_mermaid_failure:
  assumes "snd (validate_mermaid self post arguments) = [req]" and "post req = Inr r"
    and "status_code r \<noteq> 200" and "failure_message r = Inr m"
  shows "fst (validate_mermaid self post arguments)
     = Inr [TextContent ''text''
         (cross_mark @ '' Mermaid syntax is invalid!\<newline>\<newline>Error: '' @ m
          @ ''\<newline>\<newline>Common issues to check:\<newline>'' @ join ''\<newline>'' troubleshooting_hints)]"
proof (cases "arguments ''code''")
  case None
  with assms(1) show ?thesis by (simp add: validate_mermaid_without_code)
next
  case (Some code)
  define sent where "sent = \<lparr>url = api_base_url self @ ''/api/render/svg'',
    json = [(''code'', code), (''theme'', StrV ''modern'')], timeout = 15\<rparr>"
  have "snd (validate_mermaid self post arguments) = [sent]"
    using Some
    by (simp add: validate_mermaid_def Let_def sent_def split: sum.split py_value.split)
  with assms(1) have "req = sent" by simp
  with assms(2) have "post sent = Inr r" by simp
  then show ?thesis
    using Some assms(3) assms(4) by (simp add: validate_mermaid_def Let_def sent_def)
qed

lemma render_svg_failure:
  assumes "snd (render_svg self post arguments) = [req]" and "post req = Inr r"
    and "status_code r \<noteq> 200" and "failure_message r = Inr m"
  shows "fst (render_svg self post arguments)
     = Inr [TextContent ''text'' (cross_mark @ '' Failed to render SVG: '' @ m)]"
proof (cases "arguments ''code''")
  case None
  with assms(1) show ?thesis by (simp add: render_svg_without_code)
next
  case (Some code)
  define sent where "sent = \<lparr>url = api_base_url self @ ''/api/render/svg'',
    json = [(''code'', code),
            (''theme'', case arguments ''theme'' of None \<Rightarrow> StrV ''modern'' | Some t \<Rightarrow> t)],
    timeout = 30\<rparr>"
  have "snd (render_svg self post arguments) = [sent]"
    using Some by (simp add: render_svg_def Let_def sent_def split: sum.split)
  with assms(1) have "req = sent" by simp
  with assms(2) have "post sent = Inr r" by simp
  then show ?thesis
    using Some assms(3) assms(4) by (simp add: render_svg_def Let_def sent_def)
qed

lemma render_png_reply:
  assumes "snd (render_png self post arguments) = [req]" and "post req = Inr r"
  shows "\<exists>theme scale.
     fst (render_png self post arguments) =
       (if status_code r = 200
        then Inr [TextContent ''text''
               (check_mark @ '' PNG diagram generated successfully! (''
                @ format_kb (length (content r)) @ '' KB)\<newline>\<newline>''
                @ ''Theme: '' @ py_str theme @ ''\<newline>''
                @ ''Scale: '' @ py_str scale @ ''x\<newline>''
                @ ''The PNG can be saved to a file or displayed in applications that support base64 images.\<newline>\<newline>''
                @ ''To save this PNG, decode the base64 data below:\<newline>\<newline>''
                @ ''```base64\<newline>'' @ b64encode (content r) @ ''\<newline>```\<newline>\<newline>''
                @ ''Or use this data URL in HTML:\<newline>''
                @ ''```html\<newline><img src='' @ [CHR 0x22]
                @ ''data:image/png;base64,'' @ b64encode (content r) @ [CHR 0x22]
                @ '' alt='' @ [CHR 0x22] @ ''Mermaid Diagram'' @ [CHR 0x22]
                @ ''>\<newline>```'')]
        else (case failure_message r of
                Inl e \<Rightarrow> Inl e
              | Inr m \<Rightarrow> Inr [TextContent ''text'' (cross_mark @ '' Failed to render PNG: '' @ m)]))"
proof (cases "arguments ''code''")
  case None
  with assms(1) show ?thesis by (simp add: render_png_without_code)
next
  case (Some code)
  define sent where "sent = \<lparr>url = api_base_url self @ ''/api/render/png'',
    json = [(''code'', code),
            (''theme'', case arguments ''theme'' of None \<Rightarrow> StrV ''modern'' | Some t \<Rightarrow> t),
            (''scale'', case arguments ''scale'' of None \<Rightarrow> IntV 2 | Some k \<Rightarrow> k)],
    timeout = 30\<rparr>"
  have "snd (render_png self post arguments) = [sent]"
    using Some by (simp add: render_png_def Let_def sent_def split: sum.split)
  with assms(1) have "req = sent" by simp
  with assms(2) have "post sent = Inr r" by simp
  then have "fst (render_png self post arguments) =
       (if status_code r = 200
        then Inr [TextContent ''text''
               (check_mark @ '' PNG diagram generated successfully! (''
                @ format_kb (length (content r)) @ '' KB)\<newline>\<newline>''
                @ ''Theme: '' @ py_str (case arguments ''theme'' of None \<Rightarrow> StrV ''modern'' | Some t \<Rightarrow> t) @ ''\<newline>''
                @ ''Scale: '' @ py_str (case arguments ''scale'' of None \<Rightarrow> IntV 2 | Some k \<Rightarrow> k) @ ''x\<newline>''
                @ ''The PNG can be saved to a file or displayed in applications that support base64 images.\<newline>\<newline>''
                @ ''To save this PNG, decode the base64 data below:\<newline>\<newline>''
                @ ''```base64\<newline>'' @ b64encode (content r) @ ''\<newline>```\<newline>\<newline>''
                @ ''Or use this data URL in HTML:\<newline>''
                @ ''```html\<newline><img src='' @ [CHR 0x22]
                @ ''data:image/png;base64,'' @ b64encode (content r) @ [CHR 0x22]
                @ '' alt='' @ [CHR 0x22] @ ''Mermaid Diagram'' @ [CHR 0x22]
                @ ''>\<newline>```'')]
        else (case failure_message r of
                Inl e \<Rightarrow> Inl e
              | Inr m \<Rightarrow> Inr [TextContent ''text'' (cross_mark @ '' Failed to render PNG: '' @ m)]))"
    using Some by (simp add: render_png_def Let_def sent_def split: sum.split)
  then show ?thesis by blast
qed


lemma render_png_failure:
  assumes "snd (render_png self post arguments) = [req]" and "post req = Inr r"
    and "status_code r \<noteq> 200" and "failure_message r = Inr m"
  shows "fst (render_png self post arguments)
     = Inr [TextContent ''text'' (cross_mark @ '' Failed to render PNG: '' @ m)]"
  using render_png_reply [OF assms(1) assms(2)] assms(3) assms(4) by auto

text \<open>
  C3, as stated, fails: a 500 reply whose JSON object has no \<open>error\<close> field is reported
  with the fixed message \<open>Unknown error\<close>, not with the raw body text.
\<close>

theorem missing_error_field_not_raw_body:
  "failure_message missing_field_response = Inr ''Unknown error''
   \<and> body_text missing_field_response \<noteq> ''Unknown error''
   \<and> fst (handle_call_tool local_server missing_field_post ''validate_mermaid'' graph_arguments)
     = Inr [TextContent ''text''
         (cross_mark @ '' Mermaid syntax is invalid!\<newline>\<newline>Error: Unknown error''
          @ ''\<newline>\<newline>Common issues to check:\<newline>'' @ join ''\<newline>'' troubleshooting_hints)]"
proof -
  have a: "failure_message missing_field_response = Inr ''Unknown error''"
    by (simp add: failure_message_def error_data_def missing_field_response_def startswith_def)
  have b: "body_text missing_field_response \<noteq> ''Unknown error''"
    by (simp add: missing_field_response_def missing_field_body_def)
  have c: "status_code missing_field_response \<noteq> 200"
    by (simp add: missing_field_response_def)
  have "fst (validate_mermaid local_server missing_field_post graph_arguments)
     = Inr [TextContent ''text''
         (cross_mark @ '' Mermaid syntax is invalid!\<newline>\<newline>Error: Unknown error''
          @ ''\<newline>\<newline>Common issues to check:\<newline>'' @ join ''\<newline>'' troubleshooting_hints)]"
    using a c
    by (simp add: validate_mermaid_def graph_arguments_def missing_field_post_def Let_def)
  then show ?thesis
    using a b by (simp add: handle_call_tool_fst call_tool_body_def)
qed

text \<open>
  C3, amended. For a reply other than 200 the failure message is chosen by the
  \<open>content-type\<close> header. If it does not start with \<open>application/json\<close>, the message is
  the raw body text. If it does and the body parses to an object, the message is the
  object's \<open>error\<close> field, and the fixed text \<open>Unknown error\<close> when there is no such
  field. Each handler puts that message into its failure report; \<open>validate_mermaid\<close> adds
  the four hints. For the stub that answers 500 with JSON \<open>{"error":"parse error"}\<close>,
  \<open>validate_mermaid\<close> yields an invalid-shaped text holding \<open>parse error\<close> and the four
  hints.
\<close>

theorem failure_message_by_content_type:
  "(\<not> startswith (case content_type r of None \<Rightarrow> [] | Some h \<Rightarrow> h) ''application/json''
      \<longrightarrow> failure_message r = Inr (body_text r))
   \<and> (startswith (case content_type r of None \<Rightarrow> [] | Some h \<Rightarrow> h) ''application/json''
        \<and> json_result r = Inr (JObject d) \<and> d ''error'' = Some v
      \<longrightarrow> failure_message r = Inr (py_str v))
   \<and> (startswith (case content_type r of None \<Rightarrow> [] | Some h \<Rightarrow> h) ''application/json''
        \<and> json_result r = Inr (JObject d) \<and> d ''error'' = None
      \<longrightarrow> failure_message r = Inr ''Unknown error'')
   \<and> (snd (validate_mermaid self post arguments) = [req] \<and> post req = Inr r
        \<and> status_code r \<noteq> 200 \<and> failure_message r = Inr m
      \<longrightarrow> fst (validate_mermaid self post arguments)
            = Inr [TextContent ''text''
                (cross_mark @ '' Mermaid syntax is invalid!\<newline>\<newline>Error: '' @ m
                 @ ''\<newline>\<newline>Common issues to check:\<newline>''
                 @ join ''\<newline>'' troubleshooting_hints)])
   \<and> (snd (render_svg self post arguments) = [req] \<and> post req = Inr r
        \<and> status_code r \<noteq> 200 \<and> failure_message r = Inr m
      \<longrightarrow> fst (render_svg self post arguments)
            = Inr [TextContent ''text'' (cross_mark @ '' Failed to render SVG: '' @ m)])
   \<and> (snd (render_png self post arguments) = [req] \<and> post req = Inr r
        \<and> status_code r \<noteq> 200 \<and> failure_message r = Inr m
      \<longrightarrow> fst (render_png self post arguments)
            = Inr [TextContent ''text'' (cross_mark @ '' Failed to render PNG: '' @ m)])
   \<and> (\<exists>t. fst (handle_call_tool local_server parse_error_post ''validate_mermaid''
                 graph_arguments) = Inr [TextContent ''text'' t]
          \<and> startswith t (cross_mark @ '' Mermaid syntax is invalid!'')
          \<and> contains t ''parse error''
          \<and> list_all (contains t) troubleshooting_hints
          \<and> length troubleshooting_hints = 4)"
proof -
  have a: "\<not> startswith (case content_type r of None \<Rightarrow> [] | Some h \<Rightarrow> h) ''application/json''
      \<longrightarrow> failure_message r = Inr (body_text r)"
    by (simp add: failure_message_def error_data_def)
  have b: "startswith (case content_type r of None \<Rightarrow> [] | Some h \<Rightarrow> h) ''application/json''
        \<and> json_result r = Inr (JObject d) \<and> d ''error'' = Some v
      \<longrightarrow> failure_message r = Inr (py_str v)"
    by (simp add: failure_message_def error_data_def)
  have c: "startswith (case content_type r of None \<Rightarrow> [] | Some h \<Rightarrow> h) ''application/json''
        \<and> json_result r = Inr (JObject d) \<and> d ''error'' = None
      \<longrightarrow> failure_message r = Inr ''Unknown error''"
    by (simp add: failure_message_def error_data_def)
  define t where "t = cross_mark @ '' Mermaid syntax is invalid!\<newline>\<newline>Error: '' @ ''parse error''
                 @ ''\<newline>\<newline>Common issues to check:\<newline>''
                 @ join ''\<newline>'' troubleshooting_hints"
  have m: "failure_message parse_error_response = Inr ''parse error''"
    by (simp add: failure_message_def error_data_def parse_error_response_def startswith_def)
  have "fst (validate_mermaid local_server parse_error_post graph_arguments)
          = Inr [TextContent ''text'' t]"
    using m
    by (simp add: validate_mermaid_def graph_arguments_def parse_error_post_def Let_def t_def
        parse_error_response_def)
  then have e1: "fst (handle_call_tool local_server parse_error_post ''validate_mermaid''
                 graph_arguments) = Inr [TextContent ''text'' t]"
    by (simp add: handle_call_tool_fst call_tool_body_def)
  have e2: "startswith t (cross_mark @ '' Mermaid syntax is invalid!'')"
    unfolding t_def by code_simp
  have e3: "contains t ''parse error''"
    unfolding t_def by code_simp
  have e4: "list_all (contains t) troubleshooting_hints"
    unfolding t_def by code_simp
  have e5: "length troubleshooting_hints = 4"
    by (simp add: troubleshooting_hints_def)
  from e1 e2 e3 e4 e5
  have e: "\<exists>t. fst (handle_call_tool local_server parse_error_post ''validate_mermaid''
                 graph_arguments) = Inr [TextContent ''text'' t]
          \<and> startswith t (cross_mark @ '' Mermaid syntax is invalid!'')
          \<and> contains t ''parse error''
          \<and> list_all (contains t) troubleshooting_hints
          \<and> length troubleshooting_hints = 4"
    by blast
  from a b c e validate_mermaid_failure [of self post arguments req r m]
    render_svg_failure [of self post arguments req r m]
    render_png_failure [of self post arguments req r m]
  show ?thesis by blast
qed

lemma local_server_url: "api_base_url local_server = ''http://localhost:5000''"
  by (simp add: local_server_def MermaidMCPServer_def rstrip_slash_def)

theorem failure_message_by_content_type_witness:
  "failure_message plain_text_response = Inr ''Bad Gateway''
   \<and> failure_message parse_error_response = Inr ''parse error''
   \<and> failure_message missing_field_response = Inr ''Unknown error''
   \<and> fst (validate_mermaid local_server parse_error_post graph_arguments)
       = Inr [TextContent ''text''
           (cross_mark @ '' Mermaid syntax is invalid!\<newline>\<newline>Error: parse error''
            @ ''\<newline>\<newline>Common issues to check:\<newline>'' @ join ''\<newline>'' troubleshooting_hints)]
   \<and> fst (render_svg local_server plain_text_post graph_arguments)
       = Inr [TextContent ''text'' (cross_mark @ '' Failed to render SVG: Bad Gateway'')]
   \<and> fst (render_png local_server missing_field_post graph_arguments)
       = Inr [TextContent ''text'' (cross_mark @ '' Failed to render PNG: Unknown error'')]"
proof -
  let ?ct = "\<lambda>r. startswith (case content_type r of None \<Rightarrow> [] | Some h \<Rightarrow> h) ''application/json''"
  let ?val = "\<lparr>url = ''http://localhost:5000/api/render/svg'',
         json = [(''code'', StrV ''graph TD\<newline>A-->B''), (''theme'', StrV ''modern'')],
         timeout = 15\<rparr>"
  let ?svg = "\<lparr>url = ''http://localhost:5000/api/render/svg'',
         json = [(''code'', StrV ''graph TD\<newline>A-->B''), (''theme'', StrV ''modern'')],
         timeout = 30\<rparr>"
  let ?png = "\<lparr>url = ''http://localhost:5000/api/render/png'',
         json = [(''code'', StrV ''graph TD\<newline>A-->B''), (''theme'', StrV ''modern''),
                 (''scale'', IntV 2)],
         timeout = 30\<rparr>"
  have p1: "\<not> ?ct plain_text_response"
    by (simp add: plain_text_response_def startswith_def)
  have p2: "?ct parse_error_response
      \<and> json_result parse_error_response = Inr (JObject [''error'' \<mapsto> StrV ''parse error''])
      \<and> [''error'' \<mapsto> StrV ''parse error''] ''error'' = Some (StrV ''parse error'')"
    by (simp add: parse_error_response_def startswith_def)
  have p3: "?ct missing_field_response
      \<and> json_result missing_field_response = Inr (JObject [''detail'' \<mapsto> StrV ''bad input''])
      \<and> [''detail'' \<mapsto> StrV ''bad input''] ''error'' = None"
    by (simp add: missing_field_response_def startswith_def)
  from failure_message_by_content_type [of plain_text_response] p1
  have m1: "failure_message plain_text_response = Inr ''Bad Gateway''"
    by (simp add: plain_text_response_def)
  from failure_message_by_content_type [of parse_error_response
      "[''error'' \<mapsto> StrV ''parse error'']" "StrV ''parse error''"] p2
  have m2: "failure_message parse_error_response = Inr ''parse error''"
    by simp
  from failure_message_by_content_type [of missing_field_response
      "[''detail'' \<mapsto> StrV ''bad input'']"] p3
  have m3: "failure_message missing_field_response = Inr ''Unknown error''"
    by blast
  have s1: "snd (validate_mermaid local_server parse_error_post graph_arguments) = [?val]
      \<and> parse_error_post ?val = Inr parse_error_response
      \<and> status_code parse_error_response \<noteq> 200"
    by (simp add: validate_mermaid_def graph_arguments_def parse_error_post_def Let_def
        local_server_url parse_error_response_def failure_message_def error_data_def
        startswith_def)
  have s2: "snd (render_svg local_server plain_text_post graph_arguments) = [?svg]
      \<and> plain_text_post ?svg = Inr plain_text_response
      \<and> status_code plain_text_response \<noteq> 200"
    by (simp add: render_svg_def graph_arguments_def plain_text_post_def Let_def
        local_server_url plain_text_response_def failure_message_def error_data_def
        startswith_def)
  have s3: "snd (render_png local_server missing_field_post graph_arguments) = [?png]
      \<and> missing_field_post ?png = Inr missing_field_response
      \<and> status_code missing_field_response \<noteq> 200"
    by (simp add: render_png_def graph_arguments_def missing_field_post_def Let_def
        local_server_url missing_field_response_def failure_message_def error_data_def
        startswith_def)
  from failure_message_by_content_type [of parse_error_response _ _ local_server
      parse_error_post graph_arguments ?val "''parse error''"] s1 m2
  have r1: "fst (validate_mermaid local_server parse_error_post graph_arguments)
       = Inr [TextContent ''text''
           (cross_mark @ '' Mermaid syntax is invalid!\<newline>\<newline>Error: parse error''
            @ ''\<newline>\<newline>Common issues to check:\<newline>'' @ join ''\<newline>'' troubleshooting_hints)]"
    by simp
  from failure_message_by_content_type [of plain_text_response _ _ local_server
      plain_text_post graph_arguments ?svg "''Bad Gateway''"] s2 m1
  have r2: "fst (render_svg local_server plain_text_post graph_arguments)
       = Inr [TextContent ''text'' (cross_mark @ '' Failed to render SVG: Bad Gateway'')]"
    by simp
  from failure_message_by_content_type [of missing_field_response _ _ local_server
      missing_field_post graph_arguments ?png "''Unknown error''"] s3 m3
  have r3: "fst (render_png local_server missing_field_post graph_arguments)
       = Inr [TextContent ''text'' (cross_mark @ '' Failed to render PNG: Unknown error'')]"
    by simp
  from m1 m2 m3 r1 r2 r3 show ?thesis by blast
qed

section \<open>The PNG payload\<close>

text \<open>The report of \<open>_render_png\<close> for a 200 reply, grouped around the two payloads.\<close>

lemma render_png_success:
  assumes "snd (render_png self post arguments) = [req]" and "post req = Inr r"
    and "status_code r = 200"
  shows "fst (render_png self post arguments) =
       Inr [TextContent ''text''
               ((check_mark @ '' PNG diagram generated successfully! (''
                 @ format_kb (length (content r)) @ '' KB)\<newline>\<newline>''
                 @ ''Theme: ''
                 @ py_str (case arguments ''theme'' of None \<Rightarrow> StrV ''modern'' | Some t \<Rightarrow> t)
                 @ ''\<newline>''
                 @ ''Scale: ''
                 @ py_str (case arguments ''scale'' of None \<Rightarrow> IntV 2 | Some k \<Rightarrow> k)
                 @ ''x\<newline>''
                 @ ''The PNG can be saved to a file or displayed in applications that support base64 images.\<newline>\<newline>''
                 @ ''To save this PNG, decode the base64 data below:\<newline>\<newline>'')
                @ ''```base64\<newline>'' @ b64encode (content r) @ ''\<newline>```\<newline>\<newline>''
                @ (''Or use this data URL in HTML:\<newline>'' @ ''```html\<newline><img src='' @ [CHR 0x22])
                @ ''data:image/png;base64,'' @ b64encode (content r)
                @ ([CHR 0x22] @ '' alt='' @ [CHR 0x22] @ ''Mermaid Diagram'' @ [CHR 0x22]
                   @ ''>\<newline>```''))]"
proof (cases "arguments ''code''")
  case None
  with assms(1) show ?thesis by (simp add: render_png_without_code)
next
  case (Some code)
  define sent where "sent = \<lparr>url = api_base_url self @ ''/api/render/png'',
    json = [(''code'', code),
            (''theme'', case arguments ''theme'' of None \<Rightarrow> StrV ''modern'' | Some t \<Rightarrow> t),
            (''scale'', case arguments ''scale'' of None \<Rightarrow> IntV 2 | Some k \<Rightarrow> k)],
    timeout = 30\<rparr>"
  have "snd (render_png self post arguments) = [sent]"
    using Some by (simp add: render_png_def Let_def sent_def split: sum.split)
  with assms(1) have "req = sent" by simp
  with assms(2) have "post sent = Inr r" by simp
  then show ?thesis
    using Some assms(3) by (simp add: render_png_def Let_def sent_def)
qed

lemma call_render_png:
  "fst (handle_call_tool self post ''render_mermaid_png'' arguments)
     = (case fst (render_png self post arguments) of
          Inl e \<Rightarrow> Inr [TextContent ''text'' (''Error: '' @ message e)]
        | Inr r \<Rightarrow> Inr r)"
  by (simp add: handle_call_tool_fst call_tool_body_def)

text \<open>
  C8. Whatever bytes the PNG endpoint returns with status 200, the text returned by
  \<open>render_mermaid_png\<close> embeds their base64 encoding, once between the \<open>base64\<close> fences
  and once in the data URL, and decoding that payload gives back exactly those bytes.
\<close>

theorem png_payload_roundtrip:
  "snd (render_png self post arguments) = [req] \<and> post req = Inr r \<and> status_code r = 200
   \<longrightarrow> (\<exists>before middle after.
          fst (handle_call_tool self post ''render_mermaid_png'' arguments)
            = Inr [TextContent ''text''
                (before @ ''```base64\<newline>'' @ b64encode (content r) @ ''\<newline>```\<newline>\<newline>''
                 @ middle @ ''data:image/png;base64,'' @ b64encode (content r) @ after)])
       \<and> b64decode (b64encode (content r)) = Some (content r)"
proof (intro impI conjI)
  assume h: "snd (render_png self post arguments) = [req] \<and> post req = Inr r
    \<and> status_code r = 200"
  then have s: "snd (render_png self post arguments) = [req]" and p: "post req = Inr r"
    and c: "status_code r = 200"
    by simp_all
  show "\<exists>before middle after.
          fst (handle_call_tool self post ''render_mermaid_png'' arguments)
            = Inr [TextContent ''text''
                (before @ ''```base64\<newline>'' @ b64encode (content r) @ ''\<newline>```\<newline>\<newline>''
                 @ middle @ ''data:image/png;base64,'' @ b64encode (content r) @ after)]"
    unfolding call_render_png render_png_success [OF s p c] sum.case
    by (intro exI) (rule refl)
next
  show "b64decode (b64encode (content r)) = Some (content r)"
    by (rule b64_roundtrip)
qed

theorem png_payload_roundtrip_witness:
  "snd (render_png local_server png_post graph_arguments)
     = [\<lparr>url = ''http://localhost:5000/api/render/png'',
         json = [(''code'', StrV ''graph TD\<newline>A-->B''), (''theme'', StrV ''modern''),
                 (''scale'', IntV 2)],
         timeout = 30\<rparr>]
   \<and> status_code png_response = 200
   \<and> content png_response = png_bytes
   \<and> length png_bytes = 5
   \<and> b64encode png_bytes = ''iVBORw0=''
   \<and> b64decode ''iVBORw0='' = Some png_bytes
   \<and> (\<exists>before middle after.
          fst (handle_call_tool local_server png_post ''render_mermaid_png'' graph_arguments)
            = Inr [TextContent ''text''
                (before @ ''```base64\<newline>'' @ ''iVBORw0='' @ ''\<newline>```\<newline>\<newline>''
                 @ middle @ ''data:image/png;base64,'' @ ''iVBORw0='' @ after)])"
proof -
  let ?png = "\<lparr>url = ''http://localhost:5000/api/render/png'',
         json = [(''code'', StrV ''graph TD\<newline>A-->B''), (''theme'', StrV ''modern''),
                 (''scale'', IntV 2)],
         timeout = 30\<rparr>"
  have s: "snd (render_png local_server png_post graph_arguments) = [?png]"
    by (simp add: render_png_def graph_arguments_def png_post_def Let_def local_server_url
        png_response_def)
  have p: "png_post ?png = Inr png_response"
    by (simp add: png_post_def)
  have c: "status_code png_response = 200"
    by (simp add: png_response_def)
  have d: "content png_response = png_bytes"
    by (simp add: png_response_def)
  have l: "length png_bytes = 5"
    by (simp add: png_bytes_def)
  have e: "b64encode png_bytes = ''iVBORw0=''"
    by (simp add: png_bytes_def b64_char_def b64_alphabet_def Let_def)
  have k: "snd (render_png local_server png_post graph_arguments) = [?png]
      \<and> png_post ?png = Inr png_response \<and> status_code png_response = 200"
    using s p c by blast
  have "(\<exists>before middle after.
          fst (handle_call_tool local_server png_post ''render_mermaid_png'' graph_arguments)
            = Inr [TextContent ''text''
                (before @ ''```base64\<newline>'' @ ''iVBORw0='' @ ''\<newline>```\<newline>\<newline>''
                 @ middle @ ''data:image/png;base64,'' @ ''iVBORw0='' @ after)])
       \<and> b64decode ''iVBORw0='' = Some png_bytes"
    using png_payload_roundtrip [of local_server png_post graph_arguments ?png png_response,
        THEN mp, OF k]
    unfolding d e .
  then have r: "\<exists>before middle after.
          fst (handle_call_tool local_server png_post ''render_mermaid_png'' graph_arguments)
            = Inr [TextContent ''text''
                (before @ ''```base64\<newline>'' @ ''iVBORw0='' @ ''\<newline>```\<newline>\<newline>''
                 @ middle @ ''data:image/png;base64,'' @ ''iVBORw0='' @ after)]"
    and t: "b64decode ''iVBORw0='' = Some png_bytes"
    by (rule conjunct1, rule conjunct2)
  show ?thesis
    using s c d l e t r by (intro conjI)
qed

section \<open>Optional arguments\<close>

text \<open>The one request a render handler sends once \<open>code\<close> is present.\<close>

lemma call_render_svg_sent:
  "snd (handle_call_tool self post ''render_mermaid_svg'' arguments)
     = snd (render_svg self post arguments)"
  by (simp add: handle_call_tool_snd call_tool_body_def)

lemma call_render_png_sent:
  "snd (handle_call_tool self post ''render_mermaid_png'' arguments)
     = snd (render_png self post arguments)"
  by (simp add: handle_call_tool_snd call_tool_body_def)

lemma render_svg_sent:
  "arguments ''code'' = Some code \<Longrightarrow>
     snd (render_svg self post arguments)
       = [\<lparr>url = api_base_url self @ ''/api/render/svg'',
           json = [(''code'', code),
                   (''theme'', case arguments ''theme'' of
                                 None \<Rightarrow> StrV ''modern'' | Some t \<Rightarrow> t)],
           timeout = 30\<rparr>]"
  by (simp add: render_svg_def Let_def split: sum.split)

lemma render_png_sent:
  "arguments ''code'' = Some code \<Longrightarrow>
     snd (render_png self post arguments)
       = [\<lparr>url = api_base_url self @ ''/api/render/png'',
           json = [(''code'', code),
                   (''theme'', case arguments ''theme'' of
                                 None \<Rightarrow> StrV ''modern'' | Some t \<Rightarrow> t),
                   (''scale'', case arguments ''scale'' of
                                 None \<Rightarrow> IntV 2 | Some k \<Rightarrow> k)],
           timeout = 30\<rparr>]"
  by (simp add: render_png_def Let_def split: sum.split)

text \<open>
  C9. The handlers do not enforce the declared enumeration of \<open>theme\<close> or the declared
  bounds of \<open>scale\<close>. For every call of \<open>render_mermaid_svg\<close> or \<open>render_mermaid_png\<close> that
  supplies \<open>code\<close>, exactly one request is sent; a supplied \<open>theme\<close> and a supplied \<open>scale\<close>
  stand unchanged in its body, whatever their values and whether or not the other is
  supplied (an absent one takes its default); and when the service answers 200 the call
  reports success. No value of an optional argument makes the handler refuse.
\<close>

theorem optional_arguments_forwarded:
  "arguments ''code'' = Some code
   \<longrightarrow>
     snd (handle_call_tool self post ''render_mermaid_svg'' arguments)
       = [\<lparr>url = api_base_url self @ ''/api/render/svg'',
           json = [(''code'', code),
                   (''theme'', case arguments ''theme'' of
                                 None \<Rightarrow> StrV ''modern'' | Some t \<Rightarrow> t)],
           timeout = 30\<rparr>]
   \<and> snd (handle_call_tool self post ''render_mermaid_png'' arguments)
       = [\<lparr>url = api_base_url self @ ''/api/render/png'',
           json = [(''code'', code),
                   (''theme'', case arguments ''theme'' of
                                 None \<Rightarrow> StrV ''modern'' | Some t \<Rightarrow> t),
                   (''scale'', case arguments ''scale'' of
                                 None \<Rightarrow> IntV 2 | Some k \<Rightarrow> k)],
           timeout = 30\<rparr>]
   \<and> (\<forall>theme. arguments ''theme'' = Some theme
          \<longrightarrow> map_of (json (hd (snd (handle_call_tool self post ''render_mermaid_svg''
                                       arguments)))) ''theme'' = Some theme
            \<and> map_of (json (hd (snd (handle_call_tool self post ''render_mermaid_png''
                                       arguments)))) ''theme'' = Some theme)
   \<and> (\<forall>scale. arguments ''scale'' = Some scale
          \<longrightarrow> map_of (json (hd (snd (handle_call_tool self post ''render_mermaid_png''
                                       arguments)))) ''scale'' = Some scale)
   \<and> (\<forall>r. post \<lparr>url = api_base_url self @ ''/api/render/svg'',
                  json = [(''code'', code),
                          (''theme'', case arguments ''theme'' of
                                        None \<Rightarrow> StrV ''modern'' | Some t \<Rightarrow> t)],
                  timeout = 30\<rparr> = Inr r
            \<and> status_code r = 200
          \<longrightarrow> (\<exists>t. fst (handle_call_tool self post ''render_mermaid_svg'' arguments)
                  = Inr [TextContent ''text''
                      (check_mark @ '' SVG diagram generated successfully! ('' @ t)]))
   \<and> (\<forall>r. post \<lparr>url = api_base_url self @ ''/api/render/png'',
                  json = [(''code'', code),
                          (''theme'', case arguments ''theme'' of
                                        None \<Rightarrow> StrV ''modern'' | Some t \<Rightarrow> t),
                          (''scale'', case arguments ''scale'' of
                                        None \<Rightarrow> IntV 2 | Some k \<Rightarrow> k)],
                  timeout = 30\<rparr> = Inr r
            \<and> status_code r = 200
          \<longrightarrow> (\<exists>t. fst (handle_call_tool self post ''render_mermaid_png'' arguments)
                  = Inr [TextContent ''text''
                      (check_mark @ '' PNG diagram generated successfully! ('' @ t)]))"
proof (intro impI conjI)
  assume h: "arguments ''code'' = Some code"
  show "snd (handle_call_tool self post ''render_mermaid_svg'' arguments)
       = [\<lparr>url = api_base_url self @ ''/api/render/svg'',
           json = [(''code'', code),
                   (''theme'', case arguments ''theme'' of
                                 None \<Rightarrow> StrV ''modern'' | Some t \<Rightarrow> t)],
           timeout = 30\<rparr>]"
    unfolding call_render_svg_sent by (rule render_svg_sent [of arguments code self post, OF h])
  show "snd (handle_call_tool self post ''render_mermaid_png'' arguments)
       = [\<lparr>url = api_base_url self @ ''/api/render/png'',
           json = [(''code'', code),
                   (''theme'', case arguments ''theme'' of
                                 None \<Rightarrow> StrV ''modern'' | Some t \<Rightarrow> t),
                   (''scale'', case arguments ''scale'' of
                                 None \<Rightarrow> IntV 2 | Some k \<Rightarrow> k)],
           timeout = 30\<rparr>]"
    unfolding call_render_png_sent by (rule render_png_sent [of arguments code self post, OF h])
  show "\<forall>theme. arguments ''theme'' = Some theme
          \<longrightarrow> map_of (json (hd (snd (handle_call_tool self post ''render_mermaid_svg''
                                       arguments)))) ''theme'' = Some theme
            \<and> map_of (json (hd (snd (handle_call_tool self post ''render_mermaid_png''
                                       arguments)))) ''theme'' = Some theme"
    by (simp add: call_render_svg_sent call_render_png_sent render_svg_sent [of arguments code self post, OF h]
        render_png_sent [of arguments code self post, OF h])
  show "\<forall>scale. arguments ''scale'' = Some scale
          \<longrightarrow> map_of (json (hd (snd (handle_call_tool self post ''render_mermaid_png''
                                       arguments)))) ''scale'' = Some scale"
    by (simp add: call_render_png_sent render_png_sent [of arguments code self post, OF h])
  show "\<forall>r. post \<lparr>url = api_base_url self @ ''/api/render/svg'',
                  json = [(''code'', code),
                          (''theme'', case arguments ''theme'' of
                                        None \<Rightarrow> StrV ''modern'' | Some t \<Rightarrow> t)],
                  timeout = 30\<rparr> = Inr r
            \<and> status_code r = 200
          \<longrightarrow> (\<exists>t. fst (handle_call_tool self post ''render_mermaid_svg'' arguments)
                  = Inr [TextContent ''text''
                      (check_mark @ '' SVG diagram generated successfully! ('' @ t)])"
    using h by (simp add: handle_call_tool_fst call_tool_body_def render_svg_def Let_def)
  show "\<forall>r. post \<lparr>url = api_base_url self @ ''/api/render/png'',
                  json = [(''code'', code),
                          (''theme'', case arguments ''theme'' of
                                        None \<Rightarrow> StrV ''modern'' | Some t \<Rightarrow> t),
                          (''scale'', case arguments ''scale'' of
                                        None \<Rightarrow> IntV 2 | Some k \<Rightarrow> k)],
                  timeout = 30\<rparr> = Inr r
            \<and> status_code r = 200
          \<longrightarrow> (\<exists>t. fst (handle_call_tool self post ''render_mermaid_png'' arguments)
                  = Inr [TextContent ''text''
                      (check_mark @ '' PNG diagram generated successfully! ('' @ t)])"
    using h by (simp add: handle_call_tool_fst call_tool_body_def render_png_def Let_def)
qed


theorem optional_arguments_forwarded_witness:
  "''neon'' \<notin> set declared_themes
   \<and> declared_scale_maximum < 99
   \<and> snd (handle_call_tool local_server svg_post ''render_mermaid_svg'' neon_theme_arguments)
       = [\<lparr>url = ''http://localhost:5000/api/render/svg'',
           json = [(''code'', StrV ''graph TD\<newline>A-->B''), (''theme'', StrV ''neon'')],
           timeout = 30\<rparr>]
   \<and> map_of (json (hd (snd (handle_call_tool local_server svg_post ''render_mermaid_svg''
                              neon_theme_arguments)))) ''theme'' = Some (StrV ''neon'')
   \<and> (\<exists>t. fst (handle_call_tool local_server svg_post ''render_mermaid_svg''
                 neon_theme_arguments)
            = Inr [TextContent ''text''
                (check_mark @ '' SVG diagram generated successfully! ('' @ t)])
   \<and> snd (handle_call_tool local_server png_post ''render_mermaid_png'' large_scale_arguments)
       = [\<lparr>url = ''http://localhost:5000/api/render/png'',
           json = [(''code'', StrV ''graph TD\<newline>A-->B''), (''theme'', StrV ''modern''),
                   (''scale'', IntV 99)],
           timeout = 30\<rparr>]
   \<and> map_of (json (hd (snd (handle_call_tool local_server png_post ''render_mermaid_png''
                              large_scale_arguments)))) ''scale'' = Some (IntV 99)
   \<and> (\<exists>t. fst (handle_call_tool local_server png_post ''render_mermaid_png''
                 large_scale_arguments)
            = Inr [TextContent ''text''
                (check_mark @ '' PNG diagram generated successfully! ('' @ t)])
   \<and> snd (handle_call_tool local_server png_post ''render_mermaid_png'' undeclared_arguments)
       = [\<lparr>url = ''http://localhost:5000/api/render/png'',
           json = [(''code'', StrV ''graph TD\<newline>A-->B''), (''theme'', StrV ''neon''),
                   (''scale'', IntV 99)],
           timeout = 30\<rparr>]"
proof -
  let ?code = "StrV ''graph TD\<newline>A-->B''"
  have d1: "''neon'' \<notin> set declared_themes"
    by (simp add: declared_themes_def)
  have d2: "declared_scale_maximum < 99"
    by (simp add: declared_scale_maximum_def)
  have n: "neon_theme_arguments ''code'' = Some ?code"
    "neon_theme_arguments ''theme'' = Some (StrV ''neon'')"
    by (simp_all add: neon_theme_arguments_def)
  have l: "large_scale_arguments ''code'' = Some ?code"
    "large_scale_arguments ''theme'' = None"
    "large_scale_arguments ''scale'' = Some (IntV 99)"
    by (simp_all add: large_scale_arguments_def)
  have u: "undeclared_arguments ''code'' = Some ?code"
    "undeclared_arguments ''theme'' = Some (StrV ''neon'')"
    "undeclared_arguments ''scale'' = Some (IntV 99)"
    by (simp_all add: undeclared_arguments_def)
  note a = optional_arguments_forwarded [of neon_theme_arguments ?code local_server svg_post,
      THEN mp, OF n(1)]
  note b = optional_arguments_forwarded [of large_scale_arguments ?code local_server png_post,
      THEN mp, OF l(1)]
  note c = optional_arguments_forwarded [of undeclared_arguments ?code local_server png_post,
      THEN mp, OF u(1)]
  have s: "svg_post \<lparr>url = api_base_url local_server @ ''/api/render/svg'',
                  json = [(''code'', ?code),
                          (''theme'', case neon_theme_arguments ''theme'' of
                                        None \<Rightarrow> StrV ''modern'' | Some t \<Rightarrow> t)],
                  timeout = 30\<rparr> = Inr svg_response
            \<and> status_code svg_response = 200"
    by (simp add: svg_post_def svg_response_def)
  have p: "png_post \<lparr>url = api_base_url local_server @ ''/api/render/png'',
                  json = [(''code'', ?code),
                          (''theme'', case large_scale_arguments ''theme'' of
                                        None \<Rightarrow> StrV ''modern'' | Some t \<Rightarrow> t),
                          (''scale'', case large_scale_arguments ''scale'' of
                                        None \<Rightarrow> IntV 2 | Some k \<Rightarrow> k)],
                  timeout = 30\<rparr> = Inr png_response
            \<and> status_code png_response = 200"
    by (simp add: png_post_def png_response_def)
  have a1: "snd (handle_call_tool local_server svg_post ''render_mermaid_svg''
                  neon_theme_arguments)
       = [\<lparr>url = ''http://localhost:5000/api/render/svg'',
           json = [(''code'', ?code), (''theme'', StrV ''neon'')],
           timeout = 30\<rparr>]"
    using a [THEN conjunct1] by (simp add: local_server_url n)
  have a3: "map_of (json (hd (snd (handle_call_tool local_server svg_post ''render_mermaid_svg''
                              neon_theme_arguments)))) ''theme'' = Some (StrV ''neon'')"
    by (rule a [THEN conjunct2, THEN conjunct2, THEN conjunct1, rule_format, OF n(2),
          THEN conjunct1])
  have a5: "\<exists>t. fst (handle_call_tool local_server svg_post ''render_mermaid_svg''
                 neon_theme_arguments)
            = Inr [TextContent ''text''
                (check_mark @ '' SVG diagram generated successfully! ('' @ t)]"
    by (rule a [THEN conjunct2, THEN conjunct2, THEN conjunct2, THEN conjunct2, THEN conjunct1,
          rule_format, OF s])
  have b2: "snd (handle_call_tool local_server png_post ''render_mermaid_png''
                  large_scale_arguments)
       = [\<lparr>url = ''http://localhost:5000/api/render/png'',
           json = [(''code'', ?code), (''theme'', StrV ''modern''), (''scale'', IntV 99)],
           timeout = 30\<rparr>]"
    using b [THEN conjunct2, THEN conjunct1] by (simp add: local_server_url l)
  have b4: "map_of (json (hd (snd (handle_call_tool local_server png_post ''render_mermaid_png''
                              large_scale_arguments)))) ''scale'' = Some (IntV 99)"
    by (rule b [THEN conjunct2, THEN conjunct2, THEN conjunct2, THEN conjunct1, rule_format,
          OF l(3)])
  have b6: "\<exists>t. fst (handle_call_tool local_server png_post ''render_mermaid_png''
                 large_scale_arguments)
            = Inr [TextContent ''text''
                (check_mark @ '' PNG diagram generated successfully! ('' @ t)]"
    by (rule b [THEN conjunct2, THEN conjunct2, THEN conjunct2, THEN conjunct2, THEN conjunct2,
          rule_format, OF p])
  have c2: "snd (handle_call_tool local_server png_post ''render_mermaid_png''
                  undeclared_arguments)
       = [\<lparr>url = ''http://localhost:5000/api/render/png'',
           json = [(''code'', ?code), (''theme'', StrV ''neon''), (''scale'', IntV 99)],
           timeout = 30\<rparr>]"
    using c [THEN conjunct2, THEN conjunct1] by (simp add: local_server_url u)
  show ?thesis
    using d1 d2 a1 a3 a5 b2 b4 b6 c2 by (intro conjI)
qed

end
